theory Spec2Isabelle
  imports Main "HOL-Library.Sublist"
begin

section \<open>Go primitives used by the package\<close>

text \<open>
  Go strings are byte sequences, so a Go string is a \<open>string\<close> (a list of 8-bit
  characters) and the non-ASCII literals of the source are spelled out as their UTF-8
  bytes. Go's \<open>int\<close> and \<open>int64\<close> are 64-bit two's complement; they are modelled as
  \<open>int\<close>, with the wrap-around written out at the one place where the package does
  arithmetic on them (\<open>port + 1\<close>).
\<close>

definition wrap64 :: "int \<Rightarrow> int" where
  "wrap64 x = (x + 2 ^ 63) mod 2 ^ 64 - 2 ^ 63"

definition digits :: string where
  "digits = ''0123456789''"

definition digit :: "nat \<Rightarrow> char" where
  "digit d = digits ! d"

text \<open>Decimal digits of a natural number, most significant first.\<close>

fun utoa :: "nat \<Rightarrow> string" where
  "utoa n = (if n < 10 then [digit n] else utoa (n div 10) @ [digit (n mod 10)])"

declare utoa.simps [simp del]

text \<open>\<open>strconv.Itoa\<close>, \<open>strconv.FormatInt(_, 10)\<close> and the verb \<open>%d\<close>.\<close>

definition Itoa :: "int \<Rightarrow> string" where
  "Itoa i = (if i < 0 then CHR ''-'' # utoa (nat (- i)) else utoa (nat i))"

text \<open>\<open>strings.Contains\<close>.\<close>

definition Contains :: "string \<Rightarrow> string \<Rightarrow> bool" where
  "Contains s sub = sublist sub s"

section \<open>PortFinder\<close>

text \<open>
  \<open>findAvailablePort\<close> binds a listening socket on the port and calls itself on
  \<open>port + 1\<close> when the bind fails. The first argument is the environment: \<open>listen p\<close>
  holds when \<open>net.Listen\<close> succeeds on port \<open>p\<close>. The last argument records the ports
  on which a bind was attempted, in order. The recursion has no bound in the source, so
  the model is a partial function: \<open>None\<close> is a scan that never returns.
\<close>

partial_function (option) findAvailablePort ::
  "(int \<Rightarrow> bool) \<Rightarrow> int \<Rightarrow> int list \<Rightarrow> (int \<times> int list) option" where
  "findAvailablePort listen port probed =
     (if \<not> listen port
      then findAvailablePort listen (wrap64 (port + 1)) (probed @ [port])
      else Some (port, probed @ [port]))"

section \<open>Data model\<close>

record File =
  Path :: string

record DownloadStatus =
  GID :: string
  Status :: string
  TotalLength :: string
  CompletedLength :: string
  DownloadSpeed :: string
  PieceLength :: string
  NumPieces :: string
  Connections :: string
  ErrorCode :: string
  ErrorMessage :: string
  Files :: "File list"

text \<open>
  The package builds every error with \<open>fmt.Errorf\<close>. Each constructor below is one
  such call site and carries the values formatted into the message; \<open>errorString\<close> is
  the message (\<open>err.Error()\<close>). Errors of the Go library appear as their text.
\<close>

datatype error =
    AlreadyRunning
  | ExtractFailed string
  | LaunchFailed string
  | RPCStartFailed error
  | RPCTimeout
  | CtxCancelled
  | KillFailed string
  | MarshalFailed string
  | NewRequestFailed string
  | HTTPFailed string
  | ReadFailed string
  | ParseFailed string
  | JSONRPCError int string
  | ParseGIDFailed string
  | ParseStatusFailed string
  | DownloadFailed string

definition failed :: string where
  "failed = [CHR 0xE5, CHR 0xA4, CHR 0xB1, CHR 0xE8, CHR 0xB4, CHR 0xA5] @ '': ''"

definition request_failed :: string where
  "request_failed = [CHR 0xE8, CHR 0xAF, CHR 0xB7, CHR 0xE6, CHR 0xB1, CHR 0x82] @ failed"

definition download_failed :: string where
  "download_failed =
     [CHR 0xE4, CHR 0xB8, CHR 0x8B, CHR 0xE8, CHR 0xBD, CHR 0xBD,
      CHR 0xE5, CHR 0x87, CHR 0xBA, CHR 0xE9, CHR 0x94, CHR 0x99] @ '': ''"

fun errorString :: "error \<Rightarrow> string" where
  "errorString AlreadyRunning =
     ''aria2c'' @ [CHR 0xE5, CHR 0xB7, CHR 0xB2, CHR 0xE7, CHR 0xBB, CHR 0x8F,
                   CHR 0xE8, CHR 0xBF, CHR 0x90, CHR 0xE8, CHR 0xA1, CHR 0x8C]"
| "errorString (ExtractFailed e) = e"
| "errorString (LaunchFailed e) =
     ''aria2c '' @ [CHR 0xE8, CHR 0xBF, CHR 0x9B, CHR 0xE7, CHR 0xA8, CHR 0x8B,
                    CHR 0xE5, CHR 0x90, CHR 0xAF, CHR 0xE5, CHR 0x8A, CHR 0xA8] @ failed @ e"
| "errorString (RPCStartFailed e) = ''RPC service failed to start: '' @ errorString e"
| "errorString RPCTimeout =
     [CHR 0xE7, CHR 0xAD, CHR 0x89, CHR 0xE5, CHR 0xBE, CHR 0x85] @ ''RPC''
     @ [CHR 0xE6, CHR 0x9C, CHR 0x8D, CHR 0xE5, CHR 0x8A, CHR 0xA1,
        CHR 0xE8, CHR 0xB6, CHR 0x85, CHR 0xE6, CHR 0x97, CHR 0xB6]"
| "errorString CtxCancelled =
     ''ctx'' @ [CHR 0xE4, CHR 0xB8, CHR 0x8A, CHR 0xE4, CHR 0xB8, CHR 0x8B,
                CHR 0xE6, CHR 0x96, CHR 0x87, CHR 0xE5, CHR 0xB7, CHR 0xB2,
                CHR 0xE5, CHR 0x8F, CHR 0x96, CHR 0xE6, CHR 0xB6, CHR 0x88]"
| "errorString (KillFailed e) = ''failed to kill aria2c process: '' @ e"
| "errorString (MarshalFailed e) =
     [CHR 0xE5, CHR 0xBA, CHR 0x8F, CHR 0xE5, CHR 0x88, CHR 0x97,
      CHR 0xE5, CHR 0x8C, CHR 0x96] @ request_failed @ e"
| "errorString (NewRequestFailed e) =
     [CHR 0xE5, CHR 0x88, CHR 0x9B, CHR 0xE5, CHR 0xBB, CHR 0xBA] @ ''HTTP''
     @ request_failed @ e"
| "errorString (HTTPFailed e) = ''HTTP'' @ request_failed @ e"
| "errorString (ReadFailed e) =
     [CHR 0xE8, CHR 0xAF, CHR 0xBB, CHR 0xE5, CHR 0x8F, CHR 0x96,
      CHR 0xE5, CHR 0x93, CHR 0x8D, CHR 0xE5, CHR 0xBA, CHR 0x94] @ failed @ e"
| "errorString (ParseFailed e) =
     [CHR 0xE8, CHR 0xA7, CHR 0xA3, CHR 0xE6, CHR 0x9E, CHR 0x90,
      CHR 0xE5, CHR 0x93, CHR 0x8D, CHR 0xE5, CHR 0xBA, CHR 0x94] @ failed @ e"
| "errorString (JSONRPCError code message) =
     ''JSON-RPC'' @ [CHR 0xE9, CHR 0x94, CHR 0x99, CHR 0xE8, CHR 0xAF, CHR 0xAF]
     @ '' '' @ Itoa code @ '': '' @ message"
| "errorString (ParseGIDFailed e) =
     [CHR 0xE8, CHR 0xA7, CHR 0xA3, CHR 0xE6, CHR 0x9E, CHR 0x90] @ ''GID'' @ failed @ e"
| "errorString (ParseStatusFailed e) =
     [CHR 0xE8, CHR 0xA7, CHR 0xA3, CHR 0xE6, CHR 0x9E, CHR 0x90,
      CHR 0xE7, CHR 0x8A, CHR 0xB6, CHR 0xE6, CHR 0x80, CHR 0x81] @ failed @ e"
| "errorString (DownloadFailed message) = download_failed @ message"

text \<open>
  \<open>exec.Cmd\<close>, as far as the package sets or reads it: the executable, the argument
  vector (the executable first, as \<open>exec.CommandContext\<close> builds it), the
  \<open>HideWindow\<close> attribute and, once \<open>cmd.Start\<close> has succeeded, the handle of the
  subprocess (\<open>Process\<close>, nil before).
\<close>

record Cmd =
  cmd_Path :: string
  cmd_Args :: "string list"
  HideWindow :: bool
  Process :: "nat option"

text \<open>
  The supervisor. \<open>ctx_done\<close> says whether the context held in \<open>a.ctx\<close> is cancelled,
  that is, whether the function held in \<open>a.cancel\<close> has been called. The mutex is
  not modelled: every operation below runs from its lock to its unlock as one step. The
  HTTP client is a constant of the instance (a 10 second timeout) and has no field here.
\<close>

record Aria2 =
  port :: int
  running :: bool
  cmd :: "Cmd option"
  ctx_done :: bool

text \<open>
  The parameters of a call (\<open>[]interface{}\<close>) are JSON values: strings, arrays and
  objects are the ones the package passes. The result payload of a response
  (\<open>json.RawMessage\<close>) is a byte string.
\<close>

datatype jvalue = JStr string | JArr "jvalue list" | JObj "(string \<times> jvalue) list"

record jsonRPCRequest =
  JSONRPC :: string
  Method :: string
  Params :: "jvalue list"
  ID :: string

record jsonRPCError =
  Code :: int
  Message :: string

record jsonRPCResponse =
  resp_JSONRPC :: string
  Result :: string
  Error :: "jsonRPCError option"
  resp_ID :: string

text \<open>
  What the package acts on outside of its own memory: the subprocesses that are alive
  (a subprocess launched by \<open>cmd.Start\<close> is alive until it is killed or the watcher
  has seen it exit), the command lines launched, each an executable with its arguments,
  and the HTTP requests issued with \<open>httpClient.Do\<close>, each a URL with the request
  sent to it. The two lists are in the order of the events.
\<close>

record world =
  live :: "nat set"
  spawned :: "(string \<times> string list) list"
  requests :: "(string \<times> jsonRPCRequest) list"

text \<open>The supervisor holds the handle of a subprocess that is alive.\<close>

definition owns_live :: "Aria2 \<Rightarrow> world \<Rightarrow> bool" where
  "owns_live a w =
     (case cmd a of None \<Rightarrow> False
      | Some c \<Rightarrow> (case Process c of None \<Rightarrow> False | Some pid \<Rightarrow> pid \<in> live w))"

section \<open>ProcessSupervisor\<close>

text \<open>
  \<open>newDaemon\<close> looks for a port from 6800 on and builds the supervisor around it,
  with a fresh context. It does not return when the port scan does not.
\<close>

definition newDaemon :: "(int \<Rightarrow> bool) \<Rightarrow> Aria2 option" where
  "newDaemon listen =
     (case findAvailablePort listen 6800 [] of
        None \<Rightarrow> None
      | Some (p, probed) \<Rightarrow> Some \<lparr>port = p, running = False, cmd = None, ctx_done = False\<rparr>)"

definition IsRunning :: "Aria2 \<Rightarrow> bool" where
  "IsRunning a = running a"

definition buildArgs :: "Aria2 \<Rightarrow> string list" where
  "buildArgs a =
     [''--rpc-listen-port='' @ Itoa (port a),
      ''--disk-cache=64M'',
      ''--always-resume=false'',
      ''--max-resume-failure-tries=0'',
      ''--enable-rpc=true'',
      ''--rpc-listen-all=true'',
      ''--continue=true'',
      ''--max-connection-per-server=16'',
      ''--min-split-size=1M'',
      ''--split=64'',
      ''--optimize-concurrent-downloads=true'',
      ''--log-level=error'',
      ''--http-accept-gzip=true'',
      ''--content-disposition-default-utf8=true'',
      ''--check-certificate=false'']"

text \<open>
  \<open>waitForRPC\<close> selects on a 10 second timeout, a 100 ms ticker and \<open>a.ctx.Done()\<close>.
  The list holds the result of \<open>net.DialTimeout\<close> on each tick that fires before the
  timeout does (\<open>True\<close>: the connection succeeded); when it is used up the timeout case
  runs. The loop is run against one state of the supervisor, so the context is cancelled
  on entry or not at all: when it is, the \<open>Done\<close> case is the only one ready at the
  first select, before any tick.
\<close>

fun waitForRPC_loop :: "bool list \<Rightarrow> error option" where
  "waitForRPC_loop [] = Some RPCTimeout"
| "waitForRPC_loop (dial_ok # dials) = (if dial_ok then None else waitForRPC_loop dials)"

definition waitForRPC :: "Aria2 \<Rightarrow> bool list \<Rightarrow> error option" where
  "waitForRPC a dials = (if ctx_done a then Some CtxCancelled else waitForRPC_loop dials)"

text \<open>
  The environment of one \<open>Start\<close>: what \<open>ExtractBinary\<close> returns (an error text or the
  path of the executable), what \<open>cmd.Start\<close> returns (an error text or the id of the
  new subprocess), and the dial results seen by \<open>waitForRPC\<close>.
\<close>

record start_env =
  extracted :: "string + string"
  spawn :: "string + nat"
  dials :: "bool list"

definition Start :: "start_env \<Rightarrow> Aria2 \<Rightarrow> world \<Rightarrow> error option \<times> Aria2 \<times> world" where
  "Start env a w =
     (if running a then (Some AlreadyRunning, a, w)
      else case extracted env of
        Inl e \<Rightarrow> (Some (ExtractFailed e), a, w)
      | Inr binaryPath \<Rightarrow>
          let args = buildArgs a;
              c = \<lparr>cmd_Path = binaryPath, cmd_Args = binaryPath # args, HideWindow = True,
                   Process = None\<rparr>;
              a1 = a\<lparr>ctx_done := False, cmd := Some c\<rparr>
          in case spawn env of
               Inl e \<Rightarrow> (Some (LaunchFailed e), a1, w)
             | Inr pid \<Rightarrow>
                 let a2 = a1\<lparr>cmd := Some (c\<lparr>Process := Some pid\<rparr>)\<rparr>;
                     w2 = w\<lparr>live := insert pid (live w),
                            spawned := spawned w @ [(binaryPath, args)]\<rparr>
                 in case waitForRPC a2 (dials env) of
                      Some e \<Rightarrow> (Some (RPCStartFailed e), a2, w2)
                    | None \<Rightarrow> (None, a2\<lparr>running := True\<rparr>, w2))"

text \<open>
  \<open>Stop\<close>. The first argument is what \<open>Process.Kill\<close> returns if it is called (an
  error text, or \<open>None\<close> when the signal was delivered, after which the subprocess is
  no longer alive).
\<close>

definition Stop :: "string option \<Rightarrow> Aria2 \<Rightarrow> world \<Rightarrow> error option \<times> Aria2 \<times> world" where
  "Stop kill a w =
     (let a' = a\<lparr>running := False\<rparr>
      in case cmd a' of
           None \<Rightarrow> (None, a', w)
         | Some c \<Rightarrow>
             (case Process c of
                None \<Rightarrow> (None, a', w)
              | Some pid \<Rightarrow>
                  (case kill of
                     Some e \<Rightarrow> (Some (KillFailed e), a', w)
                   | None \<Rightarrow> (None, a', w\<lparr>live := live w - {pid}\<rparr>))))"

text \<open>
  The watcher started by a successful \<open>Start\<close>: \<open>cmd.Wait\<close> returns once the
  subprocess has exited, then \<open>Stop\<close> is called and its error is dropped.
\<close>

definition monitor :: "string option \<Rightarrow> Aria2 \<Rightarrow> world \<Rightarrow> Aria2 \<times> world" where
  "monitor kill a w =
     (case cmd a of
        None \<Rightarrow> (a, w)
      | Some c \<Rightarrow>
          let w' = (case Process c of None \<Rightarrow> w | Some pid \<Rightarrow> w\<lparr>live := live w - {pid}\<rparr>)
          in snd (Stop kill a w'))"

section \<open>ControlClient\<close>

text \<open>
  The functions of the Go library that \<open>Call\<close> and its wrappers go through, as
  parameters: \<open>json.Marshal\<close> of a request, \<open>http.NewRequest\<close> for a URL (its error,
  if any), and \<open>json.Unmarshal\<close> of a byte string into a response envelope, a string
  and a \<open>DownloadStatus\<close>. \<open>Inl\<close> carries the text of the library's error.
\<close>

record stdlib =
  Marshal :: "jsonRPCRequest \<Rightarrow> string + string"
  NewRequest :: "string \<Rightarrow> string option"
  UnmarshalResponse :: "string \<Rightarrow> string + jsonRPCResponse"
  UnmarshalString :: "string \<Rightarrow> string + string"
  UnmarshalStatus :: "string \<Rightarrow> string + DownloadStatus"

text \<open>
  The outcome of \<open>httpClient.Do\<close> followed by \<open>io.ReadAll\<close>: the request failed, the
  body could not be read, or the body.
\<close>

datatype http_result = DoFailed string | BodyUnread string | Body string

text \<open>
  The environment of one \<open>Call\<close>: the reading of \<open>time.Now().UnixNano()\<close> and the
  outcome of the HTTP exchange.
\<close>

record call_env =
  now :: int
  reply :: http_result

definition rpc_url :: "Aria2 \<Rightarrow> string" where
  "rpc_url a = ''http://127.0.0.1:'' @ Itoa (port a) @ ''/jsonrpc''"

text \<open>The request that \<open>Call\<close> builds at the clock reading \<open>t\<close>.\<close>

definition build_request :: "string \<Rightarrow> jvalue list \<Rightarrow> int \<Rightarrow> jsonRPCRequest" where
  "build_request meth params t =
     \<lparr>JSONRPC = ''2.0'', Method = meth, Params = params, ID = Itoa t\<rparr>"

definition Call ::
  "stdlib \<Rightarrow> call_env \<Rightarrow> Aria2 \<Rightarrow> string \<Rightarrow> jvalue list \<Rightarrow> world \<Rightarrow> (error + string) \<times> world" where
  "Call lib env a meth params w =
     (let req = build_request meth params (now env)
      in case Marshal lib req of
           Inl e \<Rightarrow> (Inl (MarshalFailed e), w)
         | Inr reqBody \<Rightarrow>
             let url = rpc_url a
             in case NewRequest lib url of
                  Some e \<Rightarrow> (Inl (NewRequestFailed e), w)
                | None \<Rightarrow>
                    let w' = w\<lparr>requests := requests w @ [(url, req)]\<rparr>
                    in case reply env of
                         DoFailed e \<Rightarrow> (Inl (HTTPFailed e), w')
                       | BodyUnread e \<Rightarrow> (Inl (ReadFailed e), w')
                       | Body respBody \<Rightarrow>
                           (case UnmarshalResponse lib respBody of
                              Inl e \<Rightarrow> (Inl (ParseFailed e), w')
                            | Inr rpcResp \<Rightarrow>
                                (case Error rpcResp of
                                   Some er \<Rightarrow> (Inl (JSONRPCError (Code er) (Message er)), w')
                                 | None \<Rightarrow> (Inr (Result rpcResp), w'))))"

text \<open>
  The errors of \<open>Call\<close> that say that the exchange did not yield a response envelope:
  the request could not be built or sent, or the response could not be read or decoded.
\<close>

fun TransportError :: "error \<Rightarrow> bool" where
  "TransportError (MarshalFailed e) = True"
| "TransportError (NewRequestFailed e) = True"
| "TransportError (HTTPFailed e) = True"
| "TransportError (ReadFailed e) = True"
| "TransportError (ParseFailed e) = True"
| "TransportError e = False"

definition AddUri ::
  "stdlib \<Rightarrow> call_env \<Rightarrow> Aria2 \<Rightarrow> string \<Rightarrow> string \<Rightarrow> string \<Rightarrow> world \<Rightarrow> (error + string) \<times> world" where
  "AddUri lib env a uri dir out w =
     (case Call lib env a ''aria2.addUri''
             [JArr [JStr uri], JObj [(''dir'', JStr dir), (''out'', JStr out)]] w of
        (Inl err, w') \<Rightarrow> (Inl err, w')
      | (Inr result, w') \<Rightarrow>
          (case UnmarshalString lib result of
             Inl e \<Rightarrow> (Inl (ParseGIDFailed e), w')
           | Inr gid \<Rightarrow> (Inr gid, w')))"

definition TellStatus ::
  "stdlib \<Rightarrow> call_env \<Rightarrow> Aria2 \<Rightarrow> string \<Rightarrow> world \<Rightarrow> (error + DownloadStatus) \<times> world" where
  "TellStatus lib env a gid w =
     (case Call lib env a ''aria2.tellStatus'' [JStr gid] w of
        (Inl err, w') \<Rightarrow> (Inl err, w')
      | (Inr result, w') \<Rightarrow>
          (case UnmarshalStatus lib result of
             Inl e \<Rightarrow> (Inl (ParseStatusFailed e), w')
           | Inr status \<Rightarrow> (Inr status, w')))"

section \<open>DownloadOrchestrator\<close>

text \<open>
  How a call of \<open>monitorDownload\<close> ends: it returns its pair of a path and an error
  (\<open>None\<close> is nil), it panics, or it is still blocked in its select.
\<close>

datatype outcome = Returned string "error option" | Panicked string | Blocked

text \<open>
  The callback is called with the pointer to the polled status, so it can rewrite the
  status before the loop inspects it; it also acts on a state of the caller's. It is a
  function from the status and that state to the status and the state it leaves. It is
  taken to return and not to call into the package itself. \<open>None\<close> is a nil
  callback, which is not called.
\<close>

definition invoke ::
  "(DownloadStatus \<Rightarrow> 'c \<Rightarrow> DownloadStatus \<times> 'c) option \<Rightarrow> DownloadStatus \<Rightarrow> 'c
     \<Rightarrow> DownloadStatus \<times> 'c" where
  "invoke callback status c = (case callback of None \<Rightarrow> (status, c) | Some f \<Rightarrow> f status c)"

text \<open>
  \<open>monitorDownload\<close> selects on a 1 second ticker and \<open>a.ctx.Done()\<close>. The list
  holds the environment of the \<open>TellStatus\<close> call of each tick that fires; when it is
  used up no further tick arrives and the loop stays in its select. As in \<open>waitForRPC\<close>
  the loop is run against one state of the supervisor. The switch reads the status as the
  callback has left it. Indexing the empty \<open>Files\<close> slice is the run-time panic of Go.
\<close>

fun monitorDownload ::
  "stdlib \<Rightarrow> Aria2 \<Rightarrow> string \<Rightarrow> (DownloadStatus \<Rightarrow> 'c \<Rightarrow> DownloadStatus \<times> 'c) option
     \<Rightarrow> call_env list \<Rightarrow> 'c \<Rightarrow> world \<Rightarrow> outcome \<times> 'c \<times> world" where
  "monitorDownload lib a gid callback [] c w =
     (if ctx_done a then (Returned [] (Some CtxCancelled), c, w) else (Blocked, c, w))"
| "monitorDownload lib a gid callback (env # ticks) c w =
     (if ctx_done a then (Returned [] (Some CtxCancelled), c, w)
      else case TellStatus lib env a gid w of
             (Inl err, w') \<Rightarrow> (Returned [] (Some err), c, w')
           | (Inr polled, w') \<Rightarrow>
               (case invoke callback polled c of
                  (status, c') \<Rightarrow>
                    if Status status = ''complete'' then
                      (case Files status of
                         [] \<Rightarrow> (Panicked ''runtime error: index out of range [0] with length 0'',
                                c', w')
                       | f # fs \<Rightarrow> (Returned (Path f) None, c', w'))
                    else if Status status = ''error'' then
                      (Returned [] (Some (DownloadFailed (ErrorMessage status))), c', w')
                    else monitorDownload lib a gid callback ticks c' w'))"

declare monitorDownload.simps [simp del]

text \<open>
  What the poll of one tick observes (the result of \<open>TellStatus\<close>, which does not
  depend on the requests issued before), and the request it issues.
\<close>

definition observe :: "stdlib \<Rightarrow> call_env \<Rightarrow> Aria2 \<Rightarrow> string \<Rightarrow> error + DownloadStatus" where
  "observe lib env a gid = fst (TellStatus lib env a gid \<lparr>live = {}, spawned = [], requests = []\<rparr>)"

definition status_request :: "Aria2 \<Rightarrow> string \<Rightarrow> call_env \<Rightarrow> string \<times> jsonRPCRequest" where
  "status_request a gid env = (rpc_url a, build_request ''aria2.tellStatus'' [JStr gid] (now env))"

text \<open>
  The environment of one \<open>Download\<close>: that of \<open>Start\<close> (used when the supervisor is
  not running), of the \<open>AddUri\<close> call and of the polls.
\<close>

record download_env =
  starting :: start_env
  submit :: call_env
  polls :: "call_env list"

definition Download ::
  "stdlib \<Rightarrow> download_env \<Rightarrow> Aria2 \<Rightarrow> string \<Rightarrow> string \<Rightarrow> string
     \<Rightarrow> (DownloadStatus \<Rightarrow> 'c \<Rightarrow> DownloadStatus \<times> 'c) option \<Rightarrow> 'c \<Rightarrow> world
     \<Rightarrow> outcome \<times> Aria2 \<times> 'c \<times> world" where
  "Download lib env a url dir out callback c w =
     (case (if \<not> IsRunning a then Start (starting env) a w else (None, a, w)) of
        (Some err, a1, w1) \<Rightarrow> (Returned [] (Some err), a1, c, w1)
      | (None, a1, w1) \<Rightarrow>
          (case AddUri lib (submit env) a1 url dir out w1 of
             (Inl err, w2) \<Rightarrow> (Returned [] (Some err), a1, c, w2)
           | (Inr gid, w2) \<Rightarrow>
               (case monitorDownload lib a1 gid callback (polls env) c w2 of
                  (r, c', w3) \<Rightarrow> (r, a1, c', w3))))"

section \<open>Runs of the supervisor\<close>

text \<open>
  The operations that act on the one supervisor of the package, each with its
  environment, and the state and world after a sequence of them. \<open>Download\<close> is run
  here with a nil callback.
\<close>

datatype op =
    DoStart start_env
  | DoStop "string option"
  | DoMonitor "string option"
  | DoCall call_env string "jvalue list"
  | DoDownload download_env string string string

fun exec :: "stdlib \<Rightarrow> op \<Rightarrow> Aria2 \<times> world \<Rightarrow> Aria2 \<times> world" where
  "exec lib (DoStart env) (a, w) = snd (Start env a w)"
| "exec lib (DoStop kill) (a, w) = snd (Stop kill a w)"
| "exec lib (DoMonitor kill) (a, w) = monitor kill a w"
| "exec lib (DoCall env meth params) (a, w) = (a, snd (Call lib env a meth params w))"
| "exec lib (DoDownload env url dir out) (a, w) =
     (case Download lib env a url dir out None () w of (r, a', c, w') \<Rightarrow> (a', w'))"

definition run :: "stdlib \<Rightarrow> op list \<Rightarrow> Aria2 \<times> world \<Rightarrow> Aria2 \<times> world" where
  "run lib ops s = fold (exec lib) ops s"

text \<open>
  Every subprocess launched so far was told to listen on port \<open>p\<close>, and every request
  issued so far went to port \<open>p\<close>.
\<close>

definition uses_port :: "int \<Rightarrow> world \<Rightarrow> bool" where
  "uses_port p w =
     ((\<forall>(path, args) \<in> set (spawned w). args \<noteq> [] \<and> hd args = ''--rpc-listen-port='' @ Itoa p)
      \<and> (\<forall>(url, req) \<in> set (requests w). url = ''http://127.0.0.1:'' @ Itoa p @ ''/jsonrpc''))"

section \<open>Example environments\<close>

text \<open>
  A supervisor as \<open>newDaemon\<close> builds it when port 6800 is free, an empty world, and a
  stand-in for the JSON functions of the Go library that knows the few byte strings
  used in the examples.
\<close>

definition a0 :: Aria2 where
  "a0 = \<lparr>port = 6800, running = False, cmd = None, ctx_done = False\<rparr>"

definition w0 :: world where
  "w0 = \<lparr>live = {}, spawned = [], requests = []\<rparr>"

definition status0 :: DownloadStatus where
  "status0 = \<lparr>GID = ''2089b05ecca3d829'', Status = [], TotalLength = ''10000'',
              CompletedLength = ''1000'', DownloadSpeed = ''0'', PieceLength = ''1048576'',
              NumPieces = ''1'', Connections = ''1'', ErrorCode = [], ErrorMessage = [],
              Files = []\<rparr>"

definition demo_statuses :: "(string \<times> DownloadStatus) list" where
  "demo_statuses =
     [(''{status:active}'', status0\<lparr>Status := ''active''\<rparr>),
      (''{status:removed}'', status0\<lparr>Status := ''removed''\<rparr>),
      (''{status:complete,files:[/tmp/file.bin]}'',
         status0\<lparr>Status := ''complete'', Files := [\<lparr>Path = ''/tmp/file.bin''\<rparr>]\<rparr>),
      (''{status:complete,files:[]}'', status0\<lparr>Status := ''complete''\<rparr>),
      (''{status:error,errorCode:13,errorMessage:file exists}'',
         status0\<lparr>Status := ''error'', ErrorCode := ''13'', ErrorMessage := ''file exists''\<rparr>)]"

text \<open>An envelope is written \<open>id=result\<close> or \<open>id!message\<close> (an error of code 1).\<close>

definition demo_envelope :: "string \<Rightarrow> string + jsonRPCResponse" where
  "demo_envelope b =
     (let i = takeWhile (\<lambda>c. c \<noteq> CHR ''='' \<and> c \<noteq> CHR ''!'') b;
          rest = drop (length i) b
      in case rest of
           [] \<Rightarrow> Inl ''unexpected end of JSON input''
         | c # r \<Rightarrow>
             if c = CHR ''=''
             then Inr \<lparr>resp_JSONRPC = ''2.0'', Result = r, Error = None, resp_ID = i\<rparr>
             else Inr \<lparr>resp_JSONRPC = ''2.0'', Result = [],
                      Error = Some \<lparr>Code = 1, Message = r\<rparr>, resp_ID = i\<rparr>)"

definition demo_lib :: stdlib where
  "demo_lib =
     \<lparr>Marshal = (\<lambda>req. Inr (ID req @ '':'' @ Method req)),
      NewRequest = (\<lambda>url. None),
      UnmarshalResponse = demo_envelope,
      UnmarshalString = (\<lambda>b. Inr b),
      UnmarshalStatus =
        (\<lambda>b. case map_of demo_statuses b of
                None \<Rightarrow> Inl ''invalid character''
              | Some st \<Rightarrow> Inr st)\<rparr>"

definition ready_env :: start_env where
  "ready_env = \<lparr>extracted = Inr ''/home/u/.local/share/aria2/aria2c'', spawn = Inr 4711,
                dials = [False, False, True]\<rparr>"

definition timeout_env :: start_env where
  "timeout_env = \<lparr>extracted = Inr ''/home/u/.local/share/aria2/aria2c'', spawn = Inr 4711,
                  dials = replicate 100 False\<rparr>"

text \<open>The supervisor after a successful \<open>Start\<close>, and after a \<open>Stop\<close> that follows it.\<close>

definition started :: "error option \<times> Aria2 \<times> world" where
  "started = Start ready_env a0 w0"

definition stopped :: "error option \<times> Aria2 \<times> world" where
  "stopped = Stop None (fst (snd started)) (snd (snd started))"

text \<open>
  Two callbacks: one appends the status it is shown to a list and leaves the status as
  it is, the other overwrites the status with \<open>active\<close>.
\<close>

definition record_status :: "DownloadStatus \<Rightarrow> string list \<Rightarrow> DownloadStatus \<times> string list" where
  "record_status s c = (s, c @ [Status s])"

definition mark_active :: "DownloadStatus \<Rightarrow> unit \<Rightarrow> DownloadStatus \<times> unit" where
  "mark_active s c = (s\<lparr>Status := ''active''\<rparr>, c)"

definition poll :: "int \<Rightarrow> string \<Rightarrow> call_env" where
  "poll t payload = \<lparr>now = t, reply = Body (''0='' @ payload)\<rparr>"

section \<open>Properties of the primitives\<close>

lemma wrap64_id: "- (2 ^ 63) \<le> x \<Longrightarrow> x < 2 ^ 63 \<Longrightarrow> wrap64 x = x"
  by (simp add: wrap64_def)

lemma digit_inj: "d < 10 \<Longrightarrow> d' < 10 \<Longrightarrow> digit d = digit d' \<Longrightarrow> d = d'"
proof -
  assume a: "d < 10" "d' < 10" "digit d = digit d'"
  have "distinct digits" by (simp add: digits_def)
  moreover have "d < length digits" "d' < length digits" using a by (simp_all add: digits_def)
  ultimately show ?thesis using a(3) by (simp add: digit_def nth_eq_iff_index_eq)
qed

lemma digit_not_minus: "d < 10 \<Longrightarrow> digit d \<noteq> CHR ''-''"
proof -
  assume "d < 10"
  then have "d < length digits" by (simp add: digits_def)
  then have "digits ! d \<in> set digits" by (rule nth_mem)
  moreover have "CHR ''-'' \<notin> set digits" by (simp add: digits_def)
  ultimately show ?thesis unfolding digit_def by metis
qed

lemma utoa_not_Nil: "utoa n \<noteq> []"
  by (subst utoa.simps) simp

lemma utoa_no_minus: "CHR ''-'' \<notin> set (utoa n)"
proof (induction n rule: utoa.induct)
  case (1 n)
  show ?case
  proof (cases "n < 10")
    case True
    then show ?thesis using digit_not_minus [of n] by (subst utoa.simps) auto
  next
    case False
    then show ?thesis using 1 digit_not_minus [of "n mod 10"]
      by (subst utoa.simps) auto
  qed
qed

lemma utoa_inj: "utoa m = utoa n \<Longrightarrow> m = n"
proof (induction m arbitrary: n rule: utoa.induct)
  case (1 m)
  show ?case
  proof (cases "m < 10")
    case mT: True
    show ?thesis
    proof (cases "n < 10")
      case True
      with mT 1(2) show ?thesis
        using digit_inj [of m n] by (simp add: utoa.simps [of m] utoa.simps [of n])
    next
      case False
      with mT 1(2) show ?thesis
        using utoa_not_Nil [of "n div 10"] by (simp add: utoa.simps [of m] utoa.simps [of n])
    qed
  next
    case mF: False
    show ?thesis
    proof (cases "n < 10")
      case True
      with mF 1(2) show ?thesis
        using utoa_not_Nil [of "m div 10"] by (simp add: utoa.simps [of m] utoa.simps [of n])
    next
      case False
      with mF 1(2) have e: "utoa (m div 10) = utoa (n div 10)"
        "digit (m mod 10) = digit (n mod 10)"
        by (simp_all add: utoa.simps [of m] utoa.simps [of n])
      from 1(1) [OF mF e(1)] have "m div 10 = n div 10" .
      moreover from e(2) have "m mod 10 = n mod 10"
        by (intro digit_inj) simp_all
      ultimately show ?thesis
        by (metis div_mult_mod_eq)
    qed
  qed
qed

text \<open>The decimal rendering determines the number.\<close>

lemma Itoa_inj: "Itoa i = Itoa j \<Longrightarrow> i = j"
proof -
  assume e: "Itoa i = Itoa j"
  have hd_utoa: "\<And>n. hd (utoa n) \<noteq> CHR ''-''"
    using utoa_no_minus utoa_not_Nil by (metis hd_in_set)
  show ?thesis
  proof (cases "i < 0")
    case iT: True
    show ?thesis
    proof (cases "j < 0")
      case True
      with iT e have "nat (- i) = nat (- j)" by (simp add: Itoa_def utoa_inj)
      with iT True show ?thesis by linarith
    next
      case False
      with iT e have "CHR ''-'' # utoa (nat (- i)) = utoa (nat j)" by (simp add: Itoa_def)
      then have "hd (utoa (nat j)) = CHR ''-''" by (metis list.sel(1))
      with hd_utoa show ?thesis by blast
    qed
  next
    case iF: False
    show ?thesis
    proof (cases "j < 0")
      case True
      with iF e have "utoa (nat i) = CHR ''-'' # utoa (nat (- j))" by (simp add: Itoa_def)
      then have "hd (utoa (nat i)) = CHR ''-''" by (metis list.sel(1))
      with hd_utoa show ?thesis by blast
    next
      case False
      with iF e have "nat i = nat j" by (simp add: Itoa_def utoa_inj)
      with iF False show ?thesis by linarith
    qed
  qed
qed

lemma Itoa_6800: "Itoa 6800 = ''6800''"
  by (simp add: Itoa_def utoa.simps digit_def digits_def)

section \<open>PortFinder: the smallest free port\<close>

lemma findAvailablePort_scan:
  assumes "- (2 ^ 63) \<le> P" and "q < 2 ^ 63" and "P \<le> q" and "listen q"
  shows "\<exists>r. findAvailablePort listen P probed = Some (r, probed @ [P..r])
             \<and> P \<le> r \<and> r \<le> q \<and> listen r \<and> (\<forall>p. P \<le> p \<and> p < r \<longrightarrow> \<not> listen p)"
  using assms
proof (induction "nat (q - P)" arbitrary: P probed)
  case 0
  then have "P = q" by simp
  with 0 show ?case
    by (subst findAvailablePort.simps) auto
next
  case (Suc n)
  show ?case
  proof (cases "listen P")
    case True
    then show ?thesis
      using Suc.prems by (subst findAvailablePort.simps) auto
  next
    case False
    have lt: "P < q" using Suc.hyps(2) by linarith
    have w: "wrap64 (P + 1) = P + 1"
      using Suc.prems lt by (intro wrap64_id) linarith+
    have n: "n = nat (q - (P + 1))" using Suc.hyps(2) by linarith
    have "\<exists>r. findAvailablePort listen (P + 1) (probed @ [P])
                  = Some (r, (probed @ [P]) @ [P + 1..r])
             \<and> P + 1 \<le> r \<and> r \<le> q \<and> listen r
             \<and> (\<forall>p. P + 1 \<le> p \<and> p < r \<longrightarrow> \<not> listen p)"
      using Suc.prems lt by (intro Suc.hyps(1) [OF n]) linarith+
    then obtain r where r: "findAvailablePort listen (P + 1) (probed @ [P])
                         = Some (r, (probed @ [P]) @ [P + 1..r])"
      "P + 1 \<le> r" "r \<le> q" "listen r" "\<forall>p. P + 1 \<le> p \<and> p < r \<longrightarrow> \<not> listen p"
      by blast
    have up: "[P..r] = P # [P + 1..r]"
      using r(2) by (simp add: upto_rec1)
    have least: "\<forall>p. P \<le> p \<and> p < r \<longrightarrow> \<not> listen p"
    proof (intro allI impI)
      fix p assume p: "P \<le> p \<and> p < r"
      show "\<not> listen p"
      proof (cases "p = P")
        case True
        with False show ?thesis by simp
      next
        case False
        with p have "P + 1 \<le> p \<and> p < r" by linarith
        with r(5) show ?thesis by blast
      qed
    qed
    have "findAvailablePort listen P probed = Some (r, probed @ [P..r])"
      using False r(1) w up by (subst findAvailablePort.simps) simp
    with r least show ?thesis
      by (intro exI [of _ r]) simp
  qed
qed

text \<open>
  C9. For every base port \<open>P\<close> (a Go \<open>int\<close>), if some port \<open>q \<ge> P\<close> is free, the scan
  started at \<open>P\<close> returns, and it returns the smallest free port \<open>r \<ge> P\<close>, having
  tried to bind exactly the ports \<open>P, P + 1, \<dots>, r\<close> in ascending order.
\<close>

theorem findAvailablePort_smallest_free:
  assumes "- (2 ^ 63) \<le> P" and "q < 2 ^ 63" and "P \<le> q" and "listen q"
  shows "\<exists>r. findAvailablePort listen P [] = Some (r, [P..r])
             \<and> P \<le> r \<and> listen r \<and> (\<forall>p. P \<le> p \<and> p < r \<longrightarrow> \<not> listen p)"
proof -
  from assms findAvailablePort_scan [of P q listen "[]"]
  obtain r where "findAvailablePort listen P [] = Some (r, [] @ [P..r])"
    and "P \<le> r" and "listen r" and "\<forall>p. P \<le> p \<and> p < r \<longrightarrow> \<not> listen p"
    by blast
  then show ?thesis by (intro exI [of _ r]) simp
qed

theorem findAvailablePort_smallest_free_witness:
  "findAvailablePort (\<lambda>p. 6802 \<le> p) 6800 [] = Some (6802, [6800, 6801, 6802])"
proof -
  have "\<exists>r. findAvailablePort (\<lambda>p. 6802 \<le> p) 6800 [] = Some (r, [6800..r])
          \<and> 6800 \<le> r \<and> 6802 \<le> r \<and> (\<forall>p. 6800 \<le> p \<and> p < r \<longrightarrow> \<not> 6802 \<le> p)"
    by (rule findAvailablePort_smallest_free [of 6800 6802 "\<lambda>p. 6802 \<le> p"]) simp_all
  then obtain r :: int where r: "findAvailablePort (\<lambda>p. 6802 \<le> p) 6800 [] = Some (r, [6800..r])"
    and ge: "6802 \<le> r" and least: "\<forall>p. 6800 \<le> p \<and> p < r \<longrightarrow> \<not> 6802 \<le> p"
    by blast
  have "\<not> 6802 < r" using spec [OF least, of 6802] by simp
  with ge have "r = 6802" by simp
  moreover have "[6800..6802] = [6800, 6801, 6802 :: int]"
    by (simp add: upto.simps)
  ultimately show ?thesis using r by simp
qed

section \<open>ProcessSupervisor: start and stop\<close>

lemma waitForRPC_loop_iff:
  "waitForRPC_loop ds = (if True \<in> set ds then None else Some RPCTimeout)"
  by (induction ds) auto

lemma Stop_state: "fst (snd (Stop kill a w)) = a\<lparr>running := False\<rparr>"
  by (simp add: Stop_def Let_def split: option.split)

lemma Stop_error:
  "fst (Stop kill a w) =
     (case cmd a of
        None \<Rightarrow> None
      | Some c \<Rightarrow> (case Process c of None \<Rightarrow> None | Some pid \<Rightarrow> map_option KillFailed kill))"
  by (simp add: Stop_def Let_def split: option.split)

lemma started_eq:
  "started =
     (None,
      \<lparr>port = 6800, running = True,
         cmd = Some \<lparr>cmd_Path = ''/home/u/.local/share/aria2/aria2c'',
                     cmd_Args = ''/home/u/.local/share/aria2/aria2c'' # buildArgs a0,
                     HideWindow = True, Process = Some 4711\<rparr>,
         ctx_done = False\<rparr>,
      \<lparr>live = {4711},
         spawned = [(''/home/u/.local/share/aria2/aria2c'', buildArgs a0)],
         requests = []\<rparr>)"
  by (simp add: started_def Start_def ready_env_def a0_def w0_def waitForRPC_def Let_def)

lemma stopped_eq:
  "stopped =
     (None,
      \<lparr>port = 6800, running = False,
         cmd = Some \<lparr>cmd_Path = ''/home/u/.local/share/aria2/aria2c'',
                     cmd_Args = ''/home/u/.local/share/aria2/aria2c'' # buildArgs a0,
                     HideWindow = True, Process = Some 4711\<rparr>,
         ctx_done = False\<rparr>,
      \<lparr>live = {},
         spawned = [(''/home/u/.local/share/aria2/aria2c'', buildArgs a0)],
         requests = []\<rparr>)"
  by (simp add: stopped_def started_eq Stop_def Let_def)

text \<open>
  C6, as stated, fails. After a successful \<open>Start\<close> and a \<open>Stop\<close> the supervisor is
  stopped and still holds the handle of its subprocess; a further \<open>Stop\<close> calls
  \<open>Process.Kill\<close> again and returns its error.
\<close>

theorem Stop_again_fails:
  "\<not> running (fst (snd stopped))
   \<and> fst (Stop (Some ''os: process already finished'') (fst (snd stopped)) (snd (snd stopped)))
       = Some (KillFailed ''os: process already finished'')"
  by (simp add: stopped_eq Stop_def Let_def)

text \<open>
  C6, amended. Every \<open>Stop\<close> leaves the supervisor marked stopped and changes nothing
  else of it, whether or not the kill fails, so a further \<open>Stop\<close> leaves the state as
  it is. \<open>Stop\<close> returns no error exactly when the kill succeeds or no subprocess handle
  is held; when a handle is held and the kill fails it returns the kill error, also on a
  supervisor that is already stopped.
\<close>

theorem Stop_marks_stopped:
  "fst (snd (Stop kill a w)) = a\<lparr>running := False\<rparr>
   \<and> fst (snd (Stop kill' (fst (snd (Stop kill a w))) (snd (snd (Stop kill a w)))))
       = fst (snd (Stop kill a w))
   \<and> ((fst (Stop kill a w) = None)
        = (kill = None \<or> \<not> (\<exists>c pid. cmd a = Some c \<and> Process c = Some pid)))
   \<and> (\<forall>e c pid. kill = Some e \<and> cmd a = Some c \<and> Process c = Some pid
         \<longrightarrow> fst (Stop kill a w) = Some (KillFailed e))"
proof -
  have 1: "fst (snd (Stop kill a w)) = a\<lparr>running := False\<rparr>" by (rule Stop_state)
  have 2: "fst (snd (Stop kill' (fst (snd (Stop kill a w))) (snd (snd (Stop kill a w)))))
       = fst (snd (Stop kill a w))"
    by (simp add: Stop_state)
  have 3: "(fst (Stop kill a w) = None)
        = (kill = None \<or> \<not> (\<exists>c pid. cmd a = Some c \<and> Process c = Some pid))"
    by (auto simp: Stop_error split: option.splits)
  have 4: "\<forall>e c pid. kill = Some e \<and> cmd a = Some c \<and> Process c = Some pid
         \<longrightarrow> fst (Stop kill a w) = Some (KillFailed e)"
    by (simp add: Stop_error)
  from 1 2 3 4 show ?thesis by simp
qed

theorem Stop_marks_stopped_witness:
  "fst (Stop None a0 w0) = None \<and> \<not> running (fst (snd (Stop None a0 w0)))
   \<and> fst (Stop (Some ''operation not permitted'') (fst (snd started)) (snd (snd started)))
        = Some (KillFailed ''operation not permitted'')
   \<and> \<not> running (fst (snd (Stop (Some ''operation not permitted'') (fst (snd started)) (snd (snd started)))))"
  using Stop_marks_stopped [of None a0 w0 None]
    Stop_marks_stopped [of "Some ''operation not permitted''" "fst (snd started)" "snd (snd started)" None]
  by (simp add: a0_def started_eq)

text \<open>
  C3. \<open>Start\<close> on a stopped supervisor, with the executable present, the subprocess
  launched as process 4711 and no dial succeeding before the timeout: \<open>Start\<close> returns
  the readiness error and leaves \<open>running\<close> false, and the supervisor holds the handle
  of the subprocess, which is still alive.
\<close>

theorem Start_timeout_keeps_subprocess:
  "fst (Start timeout_env a0 w0) = Some (RPCStartFailed RPCTimeout)
   \<and> \<not> running (fst (snd (Start timeout_env a0 w0)))
   \<and> owns_live (fst (snd (Start timeout_env a0 w0))) (snd (snd (Start timeout_env a0 w0)))"
  by (simp add: Start_def timeout_env_def a0_def w0_def waitForRPC_def waitForRPC_loop_iff
      owns_live_def Let_def)

lemma Start_launch_failure:
  assumes "\<not> running a" and "extracted env = Inr path" and "spawn env = Inl e"
  shows "Start env a w = (Some (LaunchFailed e),
           a\<lparr>ctx_done := False,
              cmd := Some \<lparr>cmd_Path = path, cmd_Args = path # buildArgs a, HideWindow = True,
                           Process = None\<rparr>\<rparr>, w)"
  using assms by (simp add: Start_def Let_def)


section \<open>ControlClient: one exchange per call\<close>

lemma Call_cases:
  obtains (marshal) e where "Marshal lib (build_request meth params (now env)) = Inl e"
      "Call lib env a meth params w = (Inl (MarshalFailed e), w)"
  | (newreq) body e where "Marshal lib (build_request meth params (now env)) = Inr body"
      "NewRequest lib (rpc_url a) = Some e"
      "Call lib env a meth params w = (Inl (NewRequestFailed e), w)"
  | (sent) body where "Marshal lib (build_request meth params (now env)) = Inr body"
      "NewRequest lib (rpc_url a) = None"
      "snd (Call lib env a meth params w) =
         w\<lparr>requests := requests w @ [(rpc_url a, build_request meth params (now env))]\<rparr>"
      "fst (Call lib env a meth params w) =
         (case reply env of
            DoFailed e \<Rightarrow> Inl (HTTPFailed e)
          | BodyUnread e \<Rightarrow> Inl (ReadFailed e)
          | Body b \<Rightarrow>
              (case UnmarshalResponse lib b of
                 Inl e \<Rightarrow> Inl (ParseFailed e)
               | Inr r \<Rightarrow>
                   (case Error r of
                      Some er \<Rightarrow> Inl (JSONRPCError (Code er) (Message er))
                    | None \<Rightarrow> Inr (Result r))))"
proof (cases "Marshal lib (build_request meth params (now env))")
  case (Inl e)
  then show ?thesis using marshal by (simp add: Call_def)
next
  case (Inr body)
  show ?thesis
  proof (cases "NewRequest lib (rpc_url a)")
    case (Some e)
    with Inr show ?thesis using newreq by (simp add: Call_def)
  next
    case None
    show ?thesis
    proof (cases "reply env")
      case (DoFailed e)
      with Inr None show ?thesis using sent by (simp add: Call_def)
    next
      case (BodyUnread e)
      with Inr None show ?thesis using sent by (simp add: Call_def)
    next
      case (Body b)
      show ?thesis
      proof (cases "UnmarshalResponse lib b")
        case (Inl e)
        with Inr None Body show ?thesis using sent by (simp add: Call_def)
      next
        case r: (Inr r)
        show ?thesis
        proof (cases "Error r")
          case None': None
          with Inr None Body r show ?thesis using sent by (simp add: Call_def)
        next
          case (Some er)
          with Inr None Body r show ?thesis using sent by (simp add: Call_def)
        qed
      qed
    qed
  qed
qed

lemma Call_fst_world:
  "fst (Call lib env a meth params w) = fst (Call lib env a meth params w')"
  by (cases rule: Call_cases [of lib meth params env a w];
      cases rule: Call_cases [of lib meth params env a w']) simp_all

lemma Call_Inr_sent:
  assumes "fst (Call lib env a meth params w) = Inr res"
  shows "snd (Call lib env a meth params w) =
     w\<lparr>requests := requests w @ [(rpc_url a, build_request meth params (now env))]\<rparr>"
  using assms by (cases rule: Call_cases [of lib meth params env a w]) simp_all

lemma Call_sent:
  assumes "Marshal lib (build_request meth params (now env)) = Inr body"
    and "NewRequest lib (rpc_url a) = None"
  shows "snd (Call lib env a meth params w) =
     w\<lparr>requests := requests w @ [(rpc_url a, build_request meth params (now env))]\<rparr>"
  using assms by (cases rule: Call_cases [of lib meth params env a w]) simp_all

lemma Call_world:
  "snd (Call lib env a meth params w) = w \<or>
   snd (Call lib env a meth params w) =
     w\<lparr>requests := requests w @ [(rpc_url a, build_request meth params (now env))]\<rparr>"
  by (cases rule: Call_cases [of lib meth params env a w]) simp_all

text \<open>
  C8. Every \<open>Call\<close> ends in one of seven ways. It fails with a transport error when
  the request cannot be built (nothing is sent then) and when the exchange does not
  complete: the request fails, the body cannot be read, or the body is not a response
  envelope. It fails with the error carrying the code and message of the envelope's
  error object when there is one, and returns the envelope's result payload as it is
  otherwise. Whenever the request is built exactly one request is issued: there is no
  retry.
\<close>

theorem Call_outcomes:
  "(\<forall>e. Marshal lib (build_request meth params (now env)) = Inl e \<longrightarrow>
      Call lib env a meth params w = (Inl (MarshalFailed e), w)
      \<and> TransportError (MarshalFailed e))
   \<and> (\<forall>body e. Marshal lib (build_request meth params (now env)) = Inr body
          \<and> NewRequest lib (rpc_url a) = Some e \<longrightarrow>
      Call lib env a meth params w = (Inl (NewRequestFailed e), w)
      \<and> TransportError (NewRequestFailed e))
   \<and> (\<forall>body. Marshal lib (build_request meth params (now env)) = Inr body
          \<and> NewRequest lib (rpc_url a) = None \<longrightarrow>
      requests (snd (Call lib env a meth params w)) =
        requests w @ [(rpc_url a, build_request meth params (now env))]
      \<and> (\<forall>e. reply env = DoFailed e \<longrightarrow>
            fst (Call lib env a meth params w) = Inl (HTTPFailed e)
            \<and> TransportError (HTTPFailed e))
      \<and> (\<forall>e. reply env = BodyUnread e \<longrightarrow>
            fst (Call lib env a meth params w) = Inl (ReadFailed e)
            \<and> TransportError (ReadFailed e))
      \<and> (\<forall>b e. reply env = Body b \<and> UnmarshalResponse lib b = Inl e \<longrightarrow>
            fst (Call lib env a meth params w) = Inl (ParseFailed e)
            \<and> TransportError (ParseFailed e))
      \<and> (\<forall>b r er. reply env = Body b \<and> UnmarshalResponse lib b = Inr r
              \<and> Error r = Some er \<longrightarrow>
            fst (Call lib env a meth params w) = Inl (JSONRPCError (Code er) (Message er)))
      \<and> (\<forall>b r. reply env = Body b \<and> UnmarshalResponse lib b = Inr r \<and> Error r = None \<longrightarrow>
            fst (Call lib env a meth params w) = Inr (Result r)))"
  by (cases rule: Call_cases [of lib meth params env a w]) simp_all

lemma demo_Marshal:
  "Marshal demo_lib (build_request meth params t) = Inr (Itoa t @ '':'' @ meth)"
  by (simp add: demo_lib_def build_request_def)

lemma demo_NewRequest: "NewRequest demo_lib url = None"
  by (simp add: demo_lib_def)

lemma demo_UnmarshalResponse: "UnmarshalResponse demo_lib = demo_envelope"
  by (simp add: demo_lib_def)

theorem Call_outcomes_witness:
  "fst (Call demo_lib \<lparr>now = 1, reply = DoFailed ''connection refused''\<rparr> a0
          ''aria2.tellStatus'' [JStr ''2089b05ecca3d829''] w0)
     = Inl (HTTPFailed ''connection refused'')
   \<and> fst (Call demo_lib \<lparr>now = 1, reply = Body ''<html>''\<rparr> a0
          ''aria2.tellStatus'' [JStr ''2089b05ecca3d829''] w0)
     = Inl (ParseFailed ''unexpected end of JSON input'')
   \<and> fst (Call demo_lib \<lparr>now = 1, reply = Body ''0!GID 2089b05ecca3d829 is not found''\<rparr> a0
          ''aria2.tellStatus'' [JStr ''2089b05ecca3d829''] w0)
     = Inl (JSONRPCError 1 ''GID 2089b05ecca3d829 is not found'')
   \<and> fst (Call demo_lib \<lparr>now = 1, reply = Body ''0={status:active}''\<rparr> a0
          ''aria2.tellStatus'' [JStr ''2089b05ecca3d829''] w0)
     = Inr ''{status:active}''
   \<and> length (requests (snd (Call demo_lib \<lparr>now = 1, reply = Body ''0={status:active}''\<rparr> a0
          ''aria2.tellStatus'' [JStr ''2089b05ecca3d829''] w0))) = 1"
  using
    Call_outcomes [where lib = demo_lib and meth = "''aria2.tellStatus''"
      and params = "[JStr ''2089b05ecca3d829'']" and a = a0 and w = w0
      and env = "\<lparr>now = 1, reply = DoFailed ''connection refused''\<rparr>"]
    Call_outcomes [where lib = demo_lib and meth = "''aria2.tellStatus''"
      and params = "[JStr ''2089b05ecca3d829'']" and a = a0 and w = w0
      and env = "\<lparr>now = 1, reply = Body ''<html>''\<rparr>"]
    Call_outcomes [where lib = demo_lib and meth = "''aria2.tellStatus''"
      and params = "[JStr ''2089b05ecca3d829'']" and a = a0 and w = w0
      and env = "\<lparr>now = 1, reply = Body ''0!GID 2089b05ecca3d829 is not found''\<rparr>"]
    Call_outcomes [where lib = demo_lib and meth = "''aria2.tellStatus''"
      and params = "[JStr ''2089b05ecca3d829'']" and a = a0 and w = w0
      and env = "\<lparr>now = 1, reply = Body ''0={status:active}''\<rparr>"]
  by (simp add: demo_Marshal demo_NewRequest demo_UnmarshalResponse demo_envelope_def
      Let_def w0_def)


lemma demo_Call_ok:
  "Call demo_lib (poll t payload) a meth params w =
     (Inr payload, w\<lparr>requests := requests w @ [(rpc_url a, build_request meth params t)]\<rparr>)"
  by (simp add: Call_def poll_def demo_Marshal demo_NewRequest demo_UnmarshalResponse
      demo_envelope_def Let_def)

text \<open>
  C7, as stated, fails. The call made at clock reading 1 sends the id \<open>1\<close>; the
  response carries the id \<open>0\<close>; \<open>Call\<close> returns its result all the same.
\<close>

theorem Call_accepts_other_id:
  "ID (build_request ''aria2.tellStatus'' [JStr ''2089b05ecca3d829''] 1) = ''1''
   \<and> UnmarshalResponse demo_lib ''0={status:active}''
       = Inr \<lparr>resp_JSONRPC = ''2.0'', Result = ''{status:active}'', Error = None, resp_ID = ''0''\<rparr>
   \<and> Call demo_lib \<lparr>now = 1, reply = Body ''0={status:active}''\<rparr> a0
         ''aria2.tellStatus'' [JStr ''2089b05ecca3d829''] w0
       = (Inr ''{status:active}'',
          w0\<lparr>requests := [(rpc_url a0, build_request ''aria2.tellStatus'' [JStr ''2089b05ecca3d829''] 1)]\<rparr>)"
  using demo_Call_ok [of 1 "''{status:active}''" a0 "''aria2.tellStatus''" "[JStr ''2089b05ecca3d829'']" w0]
  by (simp add: build_request_def Itoa_def utoa.simps digit_def digits_def
      demo_UnmarshalResponse demo_envelope_def Let_def poll_def w0_def)

lemma Call_ignores_response_id:
  "Call (lib\<lparr>UnmarshalResponse :=
            \<lambda>b. map_sum id (\<lambda>r. r\<lparr>resp_ID := i\<rparr>) (UnmarshalResponse lib b)\<rparr>)
        env a meth params w
   = Call lib env a meth params w"
  by (simp add: Call_def Let_def split: sum.split option.split http_result.split)

text \<open>
  C7, amended. Every \<open>Call\<close> that issues its request sends as correlation id the
  decimal rendering of the clock reading taken at the call, so two calls made at
  different clock readings send different ids. The id of the response is decoded and not
  compared: whatever id the response carries, \<open>Call\<close> returns the same.
\<close>

theorem Call_correlation_id:
  "(Marshal lib (build_request meth params (now env)) = Inr body
      \<and> NewRequest lib (rpc_url a) = None
    \<longrightarrow> requests (snd (Call lib env a meth params w))
          = requests w @ [(rpc_url a, build_request meth params (now env))])
   \<and> ID (build_request meth params (now env)) = Itoa (now env)
   \<and> (now env \<noteq> now env'
        \<longrightarrow> ID (build_request meth params (now env))
            \<noteq> ID (build_request meth' params' (now env')))
   \<and> Call (lib\<lparr>UnmarshalResponse :=
                \<lambda>b. map_sum id (\<lambda>r. r\<lparr>resp_ID := i\<rparr>) (UnmarshalResponse lib b)\<rparr>)
        env a meth params w
      = Call lib env a meth params w"
proof -
  have 1: "Marshal lib (build_request meth params (now env)) = Inr body
      \<and> NewRequest lib (rpc_url a) = None
    \<longrightarrow> requests (snd (Call lib env a meth params w))
          = requests w @ [(rpc_url a, build_request meth params (now env))]"
    using Call_sent [where lib = lib and meth = meth and params = params
        and env = env and body = body and a = a and w = w] by simp
  have 2: "ID (build_request meth params (now env)) = Itoa (now env)"
    by (simp add: build_request_def)
  have 3: "now env \<noteq> now env'
        \<longrightarrow> ID (build_request meth params (now env))
            \<noteq> ID (build_request meth' params' (now env'))"
    using Itoa_inj [of "now env" "now env'"] by (auto simp: build_request_def)
  from 1 2 3 Call_ignores_response_id [where lib = lib and i = i and env = env and a = a
      and meth = meth and params = params and w = w]
  show ?thesis by simp
qed

theorem Call_correlation_id_witness:
  "requests (snd (Call demo_lib (poll 1 ''{status:active}'') a0 ''aria2.tellStatus''
       [JStr ''2089b05ecca3d829''] w0))
     = [(rpc_url a0, build_request ''aria2.tellStatus'' [JStr ''2089b05ecca3d829''] 1)]
   \<and> ID (build_request ''aria2.tellStatus'' [JStr ''2089b05ecca3d829''] 1)
     \<noteq> ID (build_request ''aria2.tellStatus'' [JStr ''2089b05ecca3d829''] 2)"
  using Call_correlation_id [where lib = demo_lib and meth = "''aria2.tellStatus''"
      and params = "[JStr ''2089b05ecca3d829'']" and a = a0 and w = w0
      and env = "poll 1 ''{status:active}''" and env' = "poll 2 ''{status:active}''"
      and meth' = "''aria2.tellStatus''" and params' = "[JStr ''2089b05ecca3d829'']"
      and body = "Itoa 1 @ '':'' @ ''aria2.tellStatus''" and i = "''0''"]
  by (auto simp add: demo_Marshal demo_NewRequest poll_def w0_def)


section \<open>DownloadOrchestrator: the polling loop\<close>

lemma TellStatus_eq:
  "TellStatus lib env a gid w =
     (case fst (Call lib env a ''aria2.tellStatus'' [JStr gid] w) of
        Inl err \<Rightarrow> Inl err
      | Inr result \<Rightarrow>
          (case UnmarshalStatus lib result of
             Inl e \<Rightarrow> Inl (ParseStatusFailed e)
           | Inr status \<Rightarrow> Inr status),
      snd (Call lib env a ''aria2.tellStatus'' [JStr gid] w))"
  by (simp add: TellStatus_def split: prod.split sum.split)

lemma TellStatus_observe: "fst (TellStatus lib env a gid w) = observe lib env a gid"
  unfolding observe_def TellStatus_eq fst_conv
  by (subst Call_fst_world [of _ _ _ _ _ w "\<lparr>live = {}, spawned = [], requests = []\<rparr>"]) simp

lemma TellStatus_Inr_sent:
  assumes "observe lib env a gid = Inr st"
  shows "TellStatus lib env a gid w =
           (Inr st, w\<lparr>requests := requests w @ [status_request a gid env]\<rparr>)"
proof -
  have f: "fst (TellStatus lib env a gid w) = Inr st"
    using assms by (simp add: TellStatus_observe)
  then obtain res where "fst (Call lib env a ''aria2.tellStatus'' [JStr gid] w) = Inr res"
    by (auto simp: TellStatus_eq split: sum.splits)
  then have "snd (TellStatus lib env a gid w) =
      w\<lparr>requests := requests w @ [status_request a gid env]\<rparr>"
    by (simp add: TellStatus_eq Call_Inr_sent status_request_def)
  with f show ?thesis by (simp add: prod_eq_iff)
qed

lemma TellStatus_not_cancelled: "observe lib env a gid \<noteq> Inl CtxCancelled"
proof -
  have "fst (Call lib env a ''aria2.tellStatus'' [JStr gid] w) \<noteq> Inl CtxCancelled" for w
    by (cases rule: Call_cases [of lib "''aria2.tellStatus''" "[JStr gid]" env a w])
       (simp_all split: http_result.split sum.split option.split)
  then show ?thesis
    by (auto simp: observe_def TellStatus_eq split: sum.splits)
qed

text \<open>One tick of the loop, by what the poll observes and what the callback leaves.\<close>

lemma invoke_None [simp]: "invoke None st c = (st, c)"
  by (simp add: invoke_def)

lemma monitorDownload_poll_failed:
  assumes "\<not> ctx_done a" and "observe lib env a gid = Inl err"
  shows "fst (monitorDownload lib a gid callback (env # ticks) c w) = Returned [] (Some err)"
proof -
  obtain r w' where tw: "TellStatus lib env a gid w = (r, w')" by (cases "TellStatus lib env a gid w")
  with assms(2) have "r = Inl err" using TellStatus_observe [of lib env a gid w] by simp
  with tw assms(1) show ?thesis by (simp add: monitorDownload.simps)
qed

lemma monitorDownload_continue:
  assumes "\<not> ctx_done a" and "observe lib env a gid = Inr st"
    and "invoke callback st c = (st', c')"
    and "Status st' \<noteq> ''complete''" and "Status st' \<noteq> ''error''"
  shows "monitorDownload lib a gid callback (env # ticks) c w =
           monitorDownload lib a gid callback ticks c'
             (w\<lparr>requests := requests w @ [status_request a gid env]\<rparr>)"
  using assms by (simp add: monitorDownload.simps TellStatus_Inr_sent)

lemma monitorDownload_complete:
  assumes "\<not> ctx_done a" and "observe lib env a gid = Inr st"
    and "invoke callback st c = (st', c')" and "Status st' = ''complete''"
  shows "monitorDownload lib a gid callback (env # ticks) c w =
           ((case Files st' of
               [] \<Rightarrow> Panicked ''runtime error: index out of range [0] with length 0''
             | f # fs \<Rightarrow> Returned (Path f) None),
            c', w\<lparr>requests := requests w @ [status_request a gid env]\<rparr>)"
  using assms by (simp add: monitorDownload.simps TellStatus_Inr_sent split: list.split)

lemma monitorDownload_error:
  assumes "\<not> ctx_done a" and "observe lib env a gid = Inr st"
    and "invoke callback st c = (st', c')" and "Status st' = ''error''"
  shows "monitorDownload lib a gid callback (env # ticks) c w =
           (Returned [] (Some (DownloadFailed (ErrorMessage st'))),
            c', w\<lparr>requests := requests w @ [status_request a gid env]\<rparr>)"
  using assms by (simp add: monitorDownload.simps TellStatus_Inr_sent)

text \<open>
  The ticks on which the poll observes a status other than complete and error, under a
  callback that leaves the \<open>Status\<close> field as it finds it.
\<close>

lemma monitorDownload_skip:
  assumes "\<not> ctx_done a"
    and keeps: "\<And>s c. Status (fst (invoke callback s c)) = Status s"
    and "\<forall>env \<in> set pre. \<exists>st. observe lib env a gid = Inr st
           \<and> Status st \<noteq> ''complete'' \<and> Status st \<noteq> ''error''"
  shows "\<exists>c'. monitorDownload lib a gid callback (pre @ rest) c w =
           monitorDownload lib a gid callback rest c'
             (w\<lparr>requests := requests w @ map (status_request a gid) pre\<rparr>)"
  using assms(3)
proof (induction pre arbitrary: c w)
  case Nil
  show ?case by (intro exI [of _ c]) simp
next
  case (Cons env pre)
  then obtain st where st: "observe lib env a gid = Inr st"
    "Status st \<noteq> ''complete''" "Status st \<noteq> ''error''"
    by auto
  obtain st' c1 where i: "invoke callback st c = (st', c1)"
    by (cases "invoke callback st c")
  with keeps [of st c] st have st': "Status st' \<noteq> ''complete''" "Status st' \<noteq> ''error''"
    by simp_all
  from Cons.prems have "\<forall>env \<in> set pre. \<exists>st. observe lib env a gid = Inr st
           \<and> Status st \<noteq> ''complete'' \<and> Status st \<noteq> ''error''"
    by simp
  from Cons.IH [OF this]
  obtain c' where "monitorDownload lib a gid callback (pre @ rest) c1
             (w\<lparr>requests := requests w @ [status_request a gid env]\<rparr>) =
           monitorDownload lib a gid callback rest c'
             (w\<lparr>requests := requests w @ [status_request a gid env]\<rparr>
               \<lparr>requests := requests (w\<lparr>requests := requests w @ [status_request a gid env]\<rparr>)
                   @ map (status_request a gid) pre\<rparr>)"
    by blast
  then show ?case
    using monitorDownload_continue [OF assms(1) st(1) i st', of "pre @ rest" w]
    by (intro exI [of _ c']) simp
qed

lemma monitorDownload_never_cancelled:
  assumes "\<not> ctx_done a"
  shows "fst (monitorDownload lib a gid callback ticks c w) \<noteq> Returned p (Some CtxCancelled)"
proof (induction ticks arbitrary: c w)
  case Nil
  show ?case using assms by (simp add: monitorDownload.simps)
next
  case (Cons env ticks)
  show ?case
  proof (cases "observe lib env a gid")
    case (Inl err)
    then have "err \<noteq> CtxCancelled" using TellStatus_not_cancelled [of lib env a gid] by auto
    then show ?thesis using monitorDownload_poll_failed [OF assms Inl, of callback ticks c w] by simp
  next
    case (Inr st)
    obtain st' c' where i: "invoke callback st c = (st', c')"
      by (cases "invoke callback st c")
    consider "Status st' = ''complete''" | "Status st' = ''error''"
      | "Status st' \<noteq> ''complete''" "Status st' \<noteq> ''error''" by blast
    then show ?thesis
    proof cases
      case 1
      then show ?thesis using monitorDownload_complete [OF assms Inr i, of ticks w]
        by (simp split: list.split)
    next
      case 2
      then show ?thesis using monitorDownload_error [OF assms Inr i, of ticks w] by simp
    next
      case 3
      then show ?thesis using monitorDownload_continue [OF assms Inr i, of ticks w] Cons.IH by simp
    qed
  qed
qed

section \<open>DownloadOrchestrator: how the loop ends\<close>

lemma demo_observe:
  "observe demo_lib (poll t payload) a gid =
     (case map_of demo_statuses payload of
        None \<Rightarrow> Inl (ParseStatusFailed ''invalid character'')
      | Some st \<Rightarrow> Inr st)"
  unfolding observe_def TellStatus_def demo_Call_ok
  by (simp add: demo_lib_def split: option.split)

lemma demo_observe_active:
  "observe demo_lib (poll t ''{status:active}'') a gid = Inr (status0\<lparr>Status := ''active''\<rparr>)"
  by (simp add: demo_observe demo_statuses_def)

lemma demo_observe_removed:
  "observe demo_lib (poll t ''{status:removed}'') a gid = Inr (status0\<lparr>Status := ''removed''\<rparr>)"
  by (simp add: demo_observe demo_statuses_def)

lemma demo_observe_complete:
  "observe demo_lib (poll t ''{status:complete,files:[/tmp/file.bin]}'') a gid =
     Inr (status0\<lparr>Status := ''complete'', Files := [\<lparr>Path = ''/tmp/file.bin''\<rparr>]\<rparr>)"
  by (simp add: demo_observe demo_statuses_def)

lemma demo_observe_nofiles:
  "observe demo_lib (poll t ''{status:complete,files:[]}'') a gid =
     Inr (status0\<lparr>Status := ''complete''\<rparr>)"
  by (simp add: demo_observe demo_statuses_def)

lemma demo_observe_error:
  "observe demo_lib (poll t ''{status:error,errorCode:13,errorMessage:file exists}'') a gid =
     Inr (status0\<lparr>Status := ''error'', ErrorCode := ''13'', ErrorMessage := ''file exists''\<rparr>)"
  by (simp add: demo_observe demo_statuses_def)

lemma started_running: "\<not> ctx_done (fst (snd started))" "running (fst (snd started))"
  by (simp_all add: started_eq)

text \<open>
  C1. A running supervisor polls a task that is active at the first tick and complete
  with an empty list of files at the second: the loop indexes the empty \<open>Files\<close> slice
  and panics; no error value is returned.
\<close>

theorem monitorDownload_complete_without_files:
  "observe demo_lib (poll 2 ''{status:complete,files:[]}'') (fst (snd started)) ''2089b05ecca3d829''
     = Inr (status0\<lparr>Status := ''complete''\<rparr>)
   \<and> Files (status0\<lparr>Status := ''complete''\<rparr>) = []
   \<and> fst (monitorDownload demo_lib (fst (snd started)) ''2089b05ecca3d829'' None
          [poll 1 ''{status:active}'', poll 2 ''{status:complete,files:[]}''] ()
          (snd (snd started)))
     = Panicked ''runtime error: index out of range [0] with length 0''"
  by (simp add: demo_observe_nofiles status0_def
      monitorDownload_continue [OF started_running(1) demo_observe_active invoke_None]
      monitorDownload_complete [OF started_running(1) demo_observe_nofiles invoke_None])

lemma started_requests: "requests (snd (snd started)) = []"
  by (simp add: started_eq)

text \<open>
  C4, as stated, fails. The task is reported removed at the first tick; the loop polls
  again at the second tick and, with the task still removed, stays in its select.
\<close>

theorem monitorDownload_polls_after_removed:
  "observe demo_lib (poll 1 ''{status:removed}'') (fst (snd started)) ''2089b05ecca3d829''
     = Inr (status0\<lparr>Status := ''removed''\<rparr>)
   \<and> fst (monitorDownload demo_lib (fst (snd started)) ''2089b05ecca3d829'' None
          [poll 1 ''{status:removed}'', poll 2 ''{status:removed}''] () (snd (snd started)))
     = Blocked
   \<and> requests (snd (snd (monitorDownload demo_lib (fst (snd started)) ''2089b05ecca3d829'' None
          [poll 1 ''{status:removed}'', poll 2 ''{status:removed}''] () (snd (snd started))))) 
     = [status_request (fst (snd started)) ''2089b05ecca3d829'' (poll 1 ''{status:removed}''),
        status_request (fst (snd started)) ''2089b05ecca3d829'' (poll 2 ''{status:removed}'')]"
  by (simp add: status0_def started_requests started_running(1) demo_observe_removed
      monitorDownload_continue [OF started_running(1) demo_observe_removed invoke_None]
      monitorDownload.simps(1))

text \<open>
  A callback can keep the loop from seeing a terminal status: with the callback that
  overwrites the status with \<open>active\<close>, a task reported complete at both ticks is
  polled twice and the loop stays in its select.
\<close>

lemma monitorDownload_callback_rewrites_status:
  "fst (monitorDownload demo_lib (fst (snd started)) ''2089b05ecca3d829'' (Some mark_active)
          [poll 1 ''{status:complete,files:[/tmp/file.bin]}'',
           poll 2 ''{status:complete,files:[/tmp/file.bin]}''] () (snd (snd started)))
     = Blocked
   \<and> length (requests (snd (snd (monitorDownload demo_lib (fst (snd started))
          ''2089b05ecca3d829'' (Some mark_active)
          [poll 1 ''{status:complete,files:[/tmp/file.bin]}'',
           poll 2 ''{status:complete,files:[/tmp/file.bin]}''] () (snd (snd started))))))
     = 2"
proof -
  have i: "invoke (Some mark_active) st c = (st\<lparr>Status := ''active''\<rparr>, c)" for st c
    by (simp add: invoke_def mark_active_def)
  show ?thesis
    by (simp add: started_requests started_running(1)
        monitorDownload_continue [OF started_running(1) demo_observe_complete i]
        monitorDownload.simps(1))
qed

text \<open>
  C4, amended. Take a nil callback, or any callback that leaves the \<open>Status\<close> field of
  the status as it finds it. While the polls observe a status other than complete and
  error (removed included) the loop keeps polling, one request per tick. At the first
  tick on which the poll observes complete or error the loop ends, and the requests
  issued are those of the ticks up to and including that one: the later ticks are not
  polled.
\<close>

theorem monitorDownload_stops_at_complete_or_error:
  assumes "\<not> ctx_done a"
    and "\<And>s c. Status (fst (invoke callback s c)) = Status s"
    and "\<forall>env \<in> set pre. \<exists>st. observe lib env a gid = Inr st
           \<and> Status st \<noteq> ''complete'' \<and> Status st \<noteq> ''error''"
    and "observe lib t a gid = Inr st"
    and "Status st = ''complete'' \<or> Status st = ''error''"
  shows "fst (monitorDownload lib a gid callback pre c w) = Blocked
       \<and> requests (snd (snd (monitorDownload lib a gid callback pre c w)))
           = requests w @ map (status_request a gid) pre
       \<and> fst (monitorDownload lib a gid callback (pre @ t # post) c w) \<noteq> Blocked
       \<and> requests (snd (snd (monitorDownload lib a gid callback (pre @ t # post) c w)))
           = requests w @ map (status_request a gid) (pre @ [t])"
proof -
  let ?w = "w\<lparr>requests := requests w @ map (status_request a gid) pre\<rparr>"
  from monitorDownload_skip [OF assms(1,2,3), of "[]" c w]
  obtain c1 where "monitorDownload lib a gid callback pre c w =
      monitorDownload lib a gid callback [] c1 ?w"
    by auto
  then have 1: "fst (monitorDownload lib a gid callback pre c w) = Blocked"
    and 2: "requests (snd (snd (monitorDownload lib a gid callback pre c w)))
           = requests w @ map (status_request a gid) pre"
    using assms(1) by (simp_all add: monitorDownload.simps(1))
  from monitorDownload_skip [OF assms(1,2,3), of "t # post" c w]
  obtain c2 where s: "monitorDownload lib a gid callback (pre @ t # post) c w =
      monitorDownload lib a gid callback (t # post) c2 ?w"
    by auto
  obtain st' c3 where i: "invoke callback st c2 = (st', c3)"
    by (cases "invoke callback st c2")
  with assms(2) [of st c2] have same: "Status st' = Status st" by simp
  have "fst (monitorDownload lib a gid callback (t # post) c2 ?w) \<noteq> Blocked
    \<and> requests (snd (snd (monitorDownload lib a gid callback (t # post) c2 ?w)))
         = requests ?w @ [status_request a gid t]"
  proof (cases "Status st = ''complete''")
    case True
    with same have "Status st' = ''complete''" by simp
    then show ?thesis
      by (simp add: monitorDownload_complete [OF assms(1,4) i] split: list.split)
  next
    case False
    with assms(5) same have "Status st' = ''error''" by simp
    then show ?thesis
      by (simp add: monitorDownload_error [OF assms(1,4) i])
  qed
  with s have 3: "fst (monitorDownload lib a gid callback (pre @ t # post) c w) \<noteq> Blocked"
    and 4: "requests (snd (snd (monitorDownload lib a gid callback (pre @ t # post) c w)))
           = requests w @ map (status_request a gid) (pre @ [t])"
    by simp_all
  from 1 2 3 4 show ?thesis by simp
qed

lemma invoke_record_status:
  "invoke (Some record_status) st c = (st, c @ [Status st])"
  by (simp add: invoke_def record_status_def)

theorem monitorDownload_stops_witness:
  "monitorDownload demo_lib (fst (snd started)) ''2089b05ecca3d829'' (Some record_status)
          [poll 1 ''{status:active}'', poll 2 ''{status:removed}'',
           poll 3 ''{status:complete,files:[/tmp/file.bin]}'', poll 4 ''{status:active}''] []
          (snd (snd started))
     = (Returned ''/tmp/file.bin'' None, [''active'', ''removed'', ''complete''],
        (snd (snd started))
          \<lparr>requests := map (status_request (fst (snd started)) ''2089b05ecca3d829'')
             [poll 1 ''{status:active}'', poll 2 ''{status:removed}'',
              poll 3 ''{status:complete,files:[/tmp/file.bin]}'']\<rparr>)"
proof -
  have keeps: "Status (fst (invoke (Some record_status) s c)) = Status s" for s c
    by (simp add: invoke_record_status)
  have pre: "\<forall>env \<in> set [poll 1 ''{status:active}'', poll 2 ''{status:removed}''].
      \<exists>st. observe demo_lib env (fst (snd started)) ''2089b05ecca3d829'' = Inr st
           \<and> Status st \<noteq> ''complete'' \<and> Status st \<noteq> ''error''"
    by (simp add: demo_observe_active demo_observe_removed)
  have t: "Status (status0\<lparr>Status := ''complete'', Files := [\<lparr>Path = ''/tmp/file.bin''\<rparr>]\<rparr>)
             = ''complete''
           \<or> Status (status0\<lparr>Status := ''complete'', Files := [\<lparr>Path = ''/tmp/file.bin''\<rparr>]\<rparr>)
             = ''error''"
    by simp
  have r: "monitorDownload demo_lib (fst (snd started)) ''2089b05ecca3d829'' (Some record_status)
          [poll 1 ''{status:active}'', poll 2 ''{status:removed}'',
           poll 3 ''{status:complete,files:[/tmp/file.bin]}'', poll 4 ''{status:active}''] []
          (snd (snd started))
     = (Returned ''/tmp/file.bin'' None, [''active'', ''removed'', ''complete''],
        (snd (snd started))
          \<lparr>requests := requests (snd (snd started)) @
             [status_request (fst (snd started)) ''2089b05ecca3d829'' (poll 1 ''{status:active}''),
              status_request (fst (snd started)) ''2089b05ecca3d829'' (poll 2 ''{status:removed}''),
              status_request (fst (snd started)) ''2089b05ecca3d829''
                (poll 3 ''{status:complete,files:[/tmp/file.bin]}'')]\<rparr>)"
    by (simp add: status0_def
      monitorDownload_continue [OF started_running(1) demo_observe_active invoke_record_status]
      monitorDownload_continue [OF started_running(1) demo_observe_removed invoke_record_status]
      monitorDownload_complete [OF started_running(1) demo_observe_complete invoke_record_status])
  from monitorDownload_stops_at_complete_or_error
    [OF started_running(1) keeps pre demo_observe_complete t,
     where c = "[]" and w = "snd (snd started)" and post = "[poll 4 ''{status:active}'']"]
  show ?thesis using r by (simp add: started_requests)
qed

text \<open>
  C5, as stated, fails. The engine reports the error code 13 with the message
  \<open>file exists\<close>; the error returned carries the message and not the code.
\<close>

theorem monitorDownload_error_omits_code:
  "observe demo_lib (poll 1 ''{status:error,errorCode:13,errorMessage:file exists}'')
       (fst (snd started)) ''2089b05ecca3d829''
     = Inr (status0\<lparr>Status := ''error'', ErrorCode := ''13'', ErrorMessage := ''file exists''\<rparr>)
   \<and> fst (monitorDownload demo_lib (fst (snd started)) ''2089b05ecca3d829'' None
          [poll 1 ''{status:error,errorCode:13,errorMessage:file exists}''] ()
          (snd (snd started)))
     = Returned [] (Some (DownloadFailed ''file exists''))
   \<and> \<not> Contains (errorString (DownloadFailed ''file exists'')) ''13''"
  by (simp add: demo_observe_error status0_def
      monitorDownload_error [OF started_running(1) demo_observe_error invoke_None]
      Contains_def download_failed_def sublist_code)

text \<open>
  C5, amended. Take a nil callback, or any callback that leaves the \<open>Status\<close> and
  \<open>ErrorMessage\<close> fields of the status as it finds them. At the first tick on which
  the poll observes the status error the loop returns the empty path and an error whose
  text is the fixed prefix followed by the \<open>errorMessage\<close> reported, and no later tick
  is polled.
\<close>

theorem monitorDownload_error_message:
  assumes "\<not> ctx_done a"
    and "\<And>s c. Status (fst (invoke callback s c)) = Status s"
    and "\<And>s c. ErrorMessage (fst (invoke callback s c)) = ErrorMessage s"
    and "\<forall>env \<in> set pre. \<exists>st. observe lib env a gid = Inr st
           \<and> Status st \<noteq> ''complete'' \<and> Status st \<noteq> ''error''"
    and "observe lib t a gid = Inr st"
    and "Status st = ''error''"
  shows "fst (monitorDownload lib a gid callback (pre @ t # post) c w)
           = Returned [] (Some (DownloadFailed (ErrorMessage st)))
       \<and> errorString (DownloadFailed (ErrorMessage st)) = download_failed @ ErrorMessage st
       \<and> Contains (errorString (DownloadFailed (ErrorMessage st))) (ErrorMessage st)
       \<and> requests (snd (snd (monitorDownload lib a gid callback (pre @ t # post) c w)))
           = requests w @ map (status_request a gid) (pre @ [t])"
proof -
  let ?w = "w\<lparr>requests := requests w @ map (status_request a gid) pre\<rparr>"
  from monitorDownload_skip [OF assms(1,2,4), of "t # post" c w]
  obtain c2 where s: "monitorDownload lib a gid callback (pre @ t # post) c w =
      monitorDownload lib a gid callback (t # post) c2 ?w"
    by auto
  obtain st' c3 where i: "invoke callback st c2 = (st', c3)"
    by (cases "invoke callback st c2")
  with assms(2) [of st c2] assms(3) [of st c2] assms(6)
  have st': "Status st' = ''error''" "ErrorMessage st' = ErrorMessage st" by simp_all
  have 1: "fst (monitorDownload lib a gid callback (pre @ t # post) c w)
           = Returned [] (Some (DownloadFailed (ErrorMessage st)))"
    and 2: "requests (snd (snd (monitorDownload lib a gid callback (pre @ t # post) c w)))
           = requests w @ map (status_request a gid) (pre @ [t])"
    by (simp_all add: s monitorDownload_error [OF assms(1,5) i st'(1)] st'(2))
  have 3: "Contains (errorString (DownloadFailed (ErrorMessage st))) (ErrorMessage st)"
    by (simp add: Contains_def)
  from 1 2 3 show ?thesis by simp
qed

theorem monitorDownload_error_message_witness:
  "monitorDownload demo_lib (fst (snd started)) ''2089b05ecca3d829'' (Some record_status)
          [poll 1 ''{status:active}'',
           poll 2 ''{status:error,errorCode:13,errorMessage:file exists}'',
           poll 3 ''{status:active}''] []
          (snd (snd started))
     = (Returned [] (Some (DownloadFailed ''file exists'')), [''active'', ''error''],
        (snd (snd started))
          \<lparr>requests := map (status_request (fst (snd started)) ''2089b05ecca3d829'')
             [poll 1 ''{status:active}'',
              poll 2 ''{status:error,errorCode:13,errorMessage:file exists}'']\<rparr>)"
proof -
  have keeps: "Status (fst (invoke (Some record_status) s c)) = Status s"
    and keepm: "ErrorMessage (fst (invoke (Some record_status) s c)) = ErrorMessage s" for s c
    by (simp_all add: invoke_record_status)
  have pre: "\<forall>env \<in> set [poll 1 ''{status:active}''].
      \<exists>st. observe demo_lib env (fst (snd started)) ''2089b05ecca3d829'' = Inr st
           \<and> Status st \<noteq> ''complete'' \<and> Status st \<noteq> ''error''"
    by (simp add: demo_observe_active)
  have t: "Status (status0\<lparr>Status := ''error'', ErrorCode := ''13'', ErrorMessage := ''file exists''\<rparr>)
             = ''error''"
    by simp
  have r: "monitorDownload demo_lib (fst (snd started)) ''2089b05ecca3d829'' (Some record_status)
          [poll 1 ''{status:active}'',
           poll 2 ''{status:error,errorCode:13,errorMessage:file exists}'',
           poll 3 ''{status:active}''] []
          (snd (snd started))
     = (Returned [] (Some (DownloadFailed ''file exists'')), [''active'', ''error''],
        (snd (snd started))
          \<lparr>requests := requests (snd (snd started)) @
             [status_request (fst (snd started)) ''2089b05ecca3d829'' (poll 1 ''{status:active}''),
              status_request (fst (snd started)) ''2089b05ecca3d829''
                (poll 2 ''{status:error,errorCode:13,errorMessage:file exists}'')]\<rparr>)"
    by (simp add: status0_def
      monitorDownload_continue [OF started_running(1) demo_observe_active invoke_record_status]
      monitorDownload_error [OF started_running(1) demo_observe_error invoke_record_status])
  from monitorDownload_error_message
    [OF started_running(1) keeps keepm pre demo_observe_error t,
     where c = "[]" and w = "snd (snd started)" and post = "[poll 3 ''{status:active}'']"]
  show ?thesis using r by (simp add: started_requests)
qed

lemma Stop_ctx_done: "ctx_done (fst (snd (Stop kill a w))) = ctx_done a"
  by (simp add: Stop_state)

text \<open>
  C2. \<open>Stop\<close> does not cancel the context. On a supervisor whose context is not
  cancelled, after \<open>Stop\<close>, whatever the kill returns, the context is still not
  cancelled, and neither a polling loop nor a readiness wait run against that state
  returns the cancellation error, on any sequence of ticks.
\<close>

theorem Stop_leaves_context:
  assumes "\<not> ctx_done a"
  shows "\<not> ctx_done (fst (snd (Stop kill a w)))
       \<and> fst (monitorDownload lib (fst (snd (Stop kill a w))) gid callback ticks c w')
           \<noteq> Returned p (Some CtxCancelled)
       \<and> waitForRPC (fst (snd (Stop kill a w))) ds \<noteq> Some CtxCancelled"
proof -
  have nd: "\<not> ctx_done (fst (snd (Stop kill a w)))"
    using assms by (simp add: Stop_ctx_done)
  have "waitForRPC (fst (snd (Stop kill a w))) ds \<noteq> Some CtxCancelled"
    using nd by (simp add: waitForRPC_def waitForRPC_loop_iff)
  with nd monitorDownload_never_cancelled [OF nd] show ?thesis by simp
qed

theorem Stop_leaves_context_witness:
  "\<not> ctx_done (fst (snd started))
   \<and> stopped = Stop None (fst (snd started)) (snd (snd started))
   \<and> \<not> running (fst (snd stopped)) \<and> \<not> ctx_done (fst (snd stopped))
   \<and> fst (monitorDownload demo_lib (fst (snd stopped)) ''2089b05ecca3d829'' None
          [\<lparr>now = 1, reply = DoFailed ''connection refused''\<rparr>] () (snd (snd stopped)))
       = Returned [] (Some (HTTPFailed ''connection refused''))
   \<and> fst (monitorDownload demo_lib (fst (snd stopped)) ''2089b05ecca3d829'' None [] ()
          (snd (snd stopped)))
       = Blocked"
proof -
  have nd: "\<not> ctx_done (fst (snd stopped))" by (simp add: stopped_eq)
  have o: "observe demo_lib \<lparr>now = 1, reply = DoFailed ''connection refused''\<rparr>
             (fst (snd stopped)) ''2089b05ecca3d829'' = Inl (HTTPFailed ''connection refused'')"
    by (simp add: observe_def TellStatus_def Call_def demo_Marshal demo_NewRequest Let_def)
  from Stop_leaves_context [OF started_running(1), of None "snd (snd started)" demo_lib
      "''2089b05ecca3d829''" None "[]" "()" "snd (snd stopped)" "[]" "[]"]
  show ?thesis
    using nd by (simp add: stopped_def [symmetric] stopped_eq [THEN arg_cong, of "\<lambda>x. running (fst (snd x))"]
      monitorDownload_poll_failed [OF nd o] monitorDownload.simps(1) started_running(1))
qed


section \<open>The control port never changes\<close>

lemma uses_port_live [simp]: "uses_port p (w\<lparr>live := l\<rparr>) = uses_port p w"
  by (simp add: uses_port_def)

lemma uses_port_request:
  "uses_port (port a) w \<Longrightarrow>
   uses_port (port a) (w\<lparr>requests := requests w @ [(rpc_url a, req)]\<rparr>)"
  by (simp add: uses_port_def rpc_url_def)

lemma uses_port_spawned:
  "uses_port (port a) w \<Longrightarrow>
   uses_port (port a) (w\<lparr>live := l, spawned := spawned w @ [(path, buildArgs a)]\<rparr>)"
  by (simp add: uses_port_def buildArgs_def)

lemma Start_port: "port (fst (snd (Start env a w))) = port a"
  by (simp add: Start_def Let_def split: sum.split option.split)

lemma Start_uses_port:
  "uses_port (port a) w \<Longrightarrow> uses_port (port a) (snd (snd (Start env a w)))"
  by (simp add: Start_def Let_def uses_port_spawned split: sum.split option.split)

lemma Stop_uses_port:
  "uses_port p w \<Longrightarrow> uses_port p (snd (snd (Stop kill a w)))"
  by (simp add: Stop_def Let_def split: option.split)

lemma monitor_port: "port (fst (monitor kill a w)) = port a"
  by (simp add: monitor_def Stop_state Let_def split: option.split)

lemma monitor_uses_port:
  "uses_port p w \<Longrightarrow> uses_port p (snd (monitor kill a w))"
  by (simp add: monitor_def Stop_uses_port Let_def split: option.split)

lemma Call_uses_port:
  "uses_port (port a) w \<Longrightarrow> uses_port (port a) (snd (Call lib env a meth params w))"
  using Call_world [of lib env a meth params w] by (auto simp: uses_port_request)

lemma AddUri_world:
  "snd (AddUri lib env a uri dir out w) =
     snd (Call lib env a ''aria2.addUri''
            [JArr [JStr uri], JObj [(''dir'', JStr dir), (''out'', JStr out)]] w)"
  by (simp add: AddUri_def split: prod.split sum.split)

lemma TellStatus_uses_port:
  "uses_port (port a) w \<Longrightarrow> uses_port (port a) (snd (TellStatus lib env a gid w))"
  by (simp add: TellStatus_eq Call_uses_port)

lemma monitorDownload_uses_port:
  "uses_port (port a) w \<Longrightarrow>
   uses_port (port a) (snd (snd (monitorDownload lib a gid callback ticks c w)))"
proof (induction ticks arbitrary: c w)
  case Nil
  then show ?case by (simp add: monitorDownload.simps)
next
  case (Cons env ticks)
  obtain r w' where tw: "TellStatus lib env a gid w = (r, w')"
    by (cases "TellStatus lib env a gid w")
  with Cons.prems have w': "uses_port (port a) w'"
    using TellStatus_uses_port [of a w lib env gid] by simp
  show ?case
  proof (cases r)
    case (Inl err)
    with tw w' Cons.prems show ?thesis by (simp add: monitorDownload.simps)
  next
    case (Inr st)
    obtain st' c' where i: "invoke callback st c = (st', c')"
      by (cases "invoke callback st c")
    with Inr tw w' Cons.prems Cons.IH [OF w', of c'] show ?thesis
      by (simp add: monitorDownload.simps split: list.split)
  qed
qed

lemma Download_keeps_port:
  assumes "uses_port (port a) w"
  shows "port (fst (snd (Download lib env a url dir out callback c w))) = port a
       \<and> uses_port (port a) (snd (snd (snd (Download lib env a url dir out callback c w))))"
proof -
  obtain e a1 w1 where s: "(if \<not> IsRunning a then Start (starting env) a w else (None, a, w))
      = (e, a1, w1)"
    by (cases "if \<not> IsRunning a then Start (starting env) a w else (None, a, w)")
  then have p: "port a1 = port a" and u: "uses_port (port a1) w1"
    using assms Start_port [of "starting env" a w] Start_uses_port [OF assms, of "starting env"]
    by (auto split: if_splits)
  show ?thesis
  proof (cases e)
    case (Some err)
    with s u p show ?thesis by (simp add: Download_def)
  next
    case None
    obtain g w2 where g: "AddUri lib (submit env) a1 url dir out w1 = (g, w2)"
      by (cases "AddUri lib (submit env) a1 url dir out w1")
    then have u2: "uses_port (port a1) w2"
      using u AddUri_world [of lib "submit env" a1 url dir out w1]
        Call_uses_port [OF u, of lib "submit env"] by simp
    show ?thesis
    proof (cases g)
      case (Inl err)
      with s None g u2 p show ?thesis by (simp add: Download_def)
    next
      case (Inr gid)
      obtain r c' w3 where m: "monitorDownload lib a1 gid callback (polls env) c w2 = (r, c', w3)"
        by (cases "monitorDownload lib a1 gid callback (polls env) c w2")
      with monitorDownload_uses_port [OF u2, of lib gid callback "polls env" c]
      have "uses_port (port a1) w3" by simp
      with s None g p Inr m show ?thesis by (simp add: Download_def)
    qed
  qed
qed

lemma exec_keeps_port:
  assumes "uses_port (port a) w"
  shows "port (fst (exec lib x (a, w))) = port a
       \<and> uses_port (port a) (snd (exec lib x (a, w)))"
proof (cases x)
  case (DoStart env)
  with assms show ?thesis by (simp add: Start_port Start_uses_port)
next
  case (DoStop kill)
  with assms show ?thesis by (simp add: Stop_state Stop_uses_port)
next
  case (DoMonitor kill)
  with assms show ?thesis by (simp add: monitor_port monitor_uses_port)
next
  case (DoCall env m ps)
  with assms show ?thesis by (simp add: Call_uses_port)
next
  case (DoDownload env url dir out)
  obtain r a' c' w' where d: "Download lib env a url dir out None () w = (r, a', c', w')"
    by (cases "Download lib env a url dir out None () w") auto
  with Download_keeps_port [OF assms, of lib env url dir out None "()"]
  show ?thesis using DoDownload by simp
qed

text \<open>
  C10. The port of the supervisor is fixed when it is built: after any sequence of
  \<open>Start\<close>, \<open>Stop\<close>, watcher, \<open>Call\<close> and \<open>Download\<close> steps, in any
  environment, the supervisor has the port it started with, every subprocess launched
  was given that port as its \<open>--rpc-listen-port\<close> and every request went to the URL
  of that port. None of these steps binds a socket to look for a port.
\<close>

theorem port_never_changes:
  assumes "uses_port (port a) w"
  shows "port (fst (run lib ops (a, w))) = port a
       \<and> uses_port (port a) (snd (run lib ops (a, w)))"
  using assms
proof (induction ops arbitrary: a w)
  case Nil
  then show ?case by (simp add: run_def)
next
  case (Cons x ops)
  obtain a' w' where e: "exec lib x (a, w) = (a', w')" by (cases "exec lib x (a, w)")
  with exec_keeps_port [OF Cons.prems, of lib x]
  have p: "port a' = port a" and u: "uses_port (port a') w'" by simp_all
  from Cons.IH [OF u] p e show ?case by (simp add: run_def)
qed

lemma newDaemon_port:
  "newDaemon listen = Some a \<Longrightarrow> \<exists>probed. findAvailablePort listen 6800 [] = Some (port a, probed)"
  by (auto simp: newDaemon_def split: option.splits)

lemma uses_port_w0: "uses_port p w0"
  by (simp add: uses_port_def w0_def)

lemma rpc_url_a0: "rpc_url a0 = ''http://127.0.0.1:6800/jsonrpc''"
  by (simp add: rpc_url_def a0_def Itoa_6800)

lemma buildArgs_a0: "hd (buildArgs a0) = ''--rpc-listen-port=6800''"
  by (simp add: buildArgs_def a0_def Itoa_6800)

theorem port_never_changes_witness:
  "uses_port (port a0) w0
   \<and> port (fst (run demo_lib
        [DoStart ready_env, DoCall (poll 1 ''{status:active}'') ''aria2.tellStatus'' [JStr ''2089b05ecca3d829''],
         DoStop None, DoStart ready_env,
         DoCall (poll 2 ''{status:active}'') ''aria2.tellStatus'' [JStr ''2089b05ecca3d829'']]
        (a0, w0))) = 6800
   \<and> map (hd \<circ> snd) (spawned (snd (run demo_lib
        [DoStart ready_env, DoCall (poll 1 ''{status:active}'') ''aria2.tellStatus'' [JStr ''2089b05ecca3d829''],
         DoStop None, DoStart ready_env,
         DoCall (poll 2 ''{status:active}'') ''aria2.tellStatus'' [JStr ''2089b05ecca3d829'']]
        (a0, w0))))
      = [''--rpc-listen-port=6800'', ''--rpc-listen-port=6800'']
   \<and> map fst (requests (snd (run demo_lib
        [DoStart ready_env, DoCall (poll 1 ''{status:active}'') ''aria2.tellStatus'' [JStr ''2089b05ecca3d829''],
         DoStop None, DoStart ready_env,
         DoCall (poll 2 ''{status:active}'') ''aria2.tellStatus'' [JStr ''2089b05ecca3d829'']]
        (a0, w0))))
      = [''http://127.0.0.1:6800/jsonrpc'', ''http://127.0.0.1:6800/jsonrpc'']"
proof -
  have r: "run demo_lib
        [DoStart ready_env, DoCall (poll 1 ''{status:active}'') ''aria2.tellStatus'' [JStr ''2089b05ecca3d829''],
         DoStop None, DoStart ready_env,
         DoCall (poll 2 ''{status:active}'') ''aria2.tellStatus'' [JStr ''2089b05ecca3d829'']]
        (a0, w0)
     = (fst (snd started),
        \<lparr>live = {4711},
         spawned = [(''/home/u/.local/share/aria2/aria2c'', buildArgs a0),
                    (''/home/u/.local/share/aria2/aria2c'', buildArgs a0)],
         requests = [(rpc_url a0, build_request ''aria2.tellStatus'' [JStr ''2089b05ecca3d829''] 1),
                     (rpc_url a0, build_request ''aria2.tellStatus'' [JStr ''2089b05ecca3d829''] 2)]\<rparr>)"
    by (simp add: run_def demo_Call_ok started_def [symmetric] started_eq Stop_def Start_def
        Let_def ready_env_def waitForRPC_def rpc_url_def buildArgs_def a0_def w0_def)
  from port_never_changes [where a = a0 and w = w0 and lib = demo_lib and ops =
      "[DoStart ready_env, DoCall (poll 1 ''{status:active}'') ''aria2.tellStatus'' [JStr ''2089b05ecca3d829''],
         DoStop None, DoStart ready_env,
         DoCall (poll 2 ''{status:active}'') ''aria2.tellStatus'' [JStr ''2089b05ecca3d829'']]",
      OF uses_port_w0]
  show ?thesis
    by (simp add: r uses_port_w0 rpc_url_a0 buildArgs_a0 started_eq)
qed


end
